theory Spec2Isabelle
  imports Complex_Main "HOL-Library.Sublist"
begin

section \<open>Python values\<close>

subsection \<open>Strings\<close>

text \<open>
  A Python \<open>str\<close> is a sequence of Unicode code points; \<open>len\<close>, slicing, \<open>strip\<close> and
  the \<open>re\<close> module all count code points. The model is a list of code points, so that
  the bullet U+2022 and the Devanagari keywords of the source are single elements.
  ASCII literals of the source are written \<open>lit ''...''\<close>.
\<close>

type_synonym pystr = "nat list"

definition lit :: "string \<Rightarrow> pystr" where
  "lit s = map of_char s"

text \<open>
  \<open>str.isspace\<close> for one code point, which is also what \<open>str.strip()\<close> removes and what
  \<open>\s\<close> matches in a \<open>str\<close> pattern: the code points of bidirectional class WS, B or S
  and of category Zs.
\<close>

definition isspace :: "nat \<Rightarrow> bool" where
  "isspace c = ((9 \<le> c \<and> c \<le> 13) \<or> (28 \<le> c \<and> c \<le> 32) \<or> c = 133 \<or> c = 160 \<or> c = 5760
     \<or> (8192 \<le> c \<and> c \<le> 8202) \<or> c = 8232 \<or> c = 8233 \<or> c = 8239 \<or> c = 8287 \<or> c = 12288)"

definition lstrip :: "pystr \<Rightarrow> pystr" where
  "lstrip s = dropWhile isspace s"

definition rstrip :: "pystr \<Rightarrow> pystr" where
  "rstrip s = rev (dropWhile isspace (rev s))"

definition strip :: "pystr \<Rightarrow> pystr" where
  "strip s = rstrip (lstrip s)"

text \<open>
  \<open>str.lower()\<close> applies the full lower-case mapping of the Unicode character database
  to every code point. The tables below are those of Unicode 14.0: \<open>lower_table\<close> lists
  the code points from U+0080 whose lower case is one other code point, as runs
  \<open>(first, last, step, image of first)\<close> in which every \<open>step\<close>-th code point is
  shifted by the same amount; U+0130 is the one code point whose lower case has two
  code points. Capital sigma U+03A3 becomes the final sigma U+03C2 at the end of a
  word and U+03C3 elsewhere; for that rule \<open>case_ignorable_table\<close> lists the
  case-ignorable code points and \<open>cased_table\<close> the cased code points that are not
  case-ignorable, as runs \<open>(first, last)\<close>.
\<close>

definition lower_table :: "(nat \<times> nat \<times> nat \<times> nat) list" where
  "lower_table =
    [(192, 214, 1, 224), (216, 222, 1, 248), (256, 302, 2, 257), (306, 310, 2, 307),
     (313, 327, 2, 314), (330, 374, 2, 331), (376, 376, 1, 255), (377, 381, 2, 378),
     (385, 385, 1, 595), (386, 388, 2, 387), (390, 390, 1, 596), (391, 391, 1, 392),
     (393, 394, 1, 598), (395, 395, 1, 396), (398, 398, 1, 477), (399, 399, 1, 601),
     (400, 400, 1, 603), (401, 401, 1, 402), (403, 403, 1, 608), (404, 404, 1, 611),
     (406, 406, 1, 617), (407, 407, 1, 616), (408, 408, 1, 409), (412, 412, 1, 623),
     (413, 413, 1, 626), (415, 415, 1, 629), (416, 420, 2, 417), (422, 422, 1, 640),
     (423, 423, 1, 424), (425, 425, 1, 643), (428, 428, 1, 429), (430, 430, 1, 648),
     (431, 431, 1, 432), (433, 434, 1, 650), (435, 437, 2, 436), (439, 439, 1, 658),
     (440, 440, 1, 441), (444, 444, 1, 445), (452, 452, 1, 454), (453, 453, 1, 454),
     (455, 455, 1, 457), (456, 456, 1, 457), (458, 458, 1, 460), (459, 475, 2, 460),
     (478, 494, 2, 479), (497, 497, 1, 499), (498, 500, 2, 499), (502, 502, 1, 405),
     (503, 503, 1, 447), (504, 542, 2, 505), (544, 544, 1, 414), (546, 562, 2, 547),
     (570, 570, 1, 11365), (571, 571, 1, 572), (573, 573, 1, 410), (574, 574, 1, 11366),
     (577, 577, 1, 578), (579, 579, 1, 384), (580, 580, 1, 649), (581, 581, 1, 652),
     (582, 590, 2, 583), (880, 882, 2, 881), (886, 886, 1, 887), (895, 895, 1, 1011),
     (902, 902, 1, 940), (904, 906, 1, 941), (908, 908, 1, 972), (910, 911, 1, 973),
     (913, 929, 1, 945), (932, 939, 1, 964), (975, 975, 1, 983), (984, 1006, 2, 985),
     (1012, 1012, 1, 952), (1015, 1015, 1, 1016), (1017, 1017, 1, 1010), (1018, 1018, 1, 1019),
     (1021, 1023, 1, 891), (1024, 1039, 1, 1104), (1040, 1071, 1, 1072), (1120, 1152, 2, 1121),
     (1162, 1214, 2, 1163), (1216, 1216, 1, 1231), (1217, 1229, 2, 1218), (1232, 1326, 2, 1233),
     (1329, 1366, 1, 1377), (4256, 4293, 1, 11520), (4295, 4295, 1, 11559),
     (4301, 4301, 1, 11565), (5024, 5103, 1, 43888), (5104, 5109, 1, 5112),
     (7312, 7354, 1, 4304), (7357, 7359, 1, 4349), (7680, 7828, 2, 7681), (7838, 7838, 1, 223),
     (7840, 7934, 2, 7841), (7944, 7951, 1, 7936), (7960, 7965, 1, 7952), (7976, 7983, 1, 7968),
     (7992, 7999, 1, 7984), (8008, 8013, 1, 8000), (8025, 8031, 2, 8017), (8040, 8047, 1, 8032),
     (8072, 8079, 1, 8064), (8088, 8095, 1, 8080), (8104, 8111, 1, 8096), (8120, 8121, 1, 8112),
     (8122, 8123, 1, 8048), (8124, 8124, 1, 8115), (8136, 8139, 1, 8050), (8140, 8140, 1, 8131),
     (8152, 8153, 1, 8144), (8154, 8155, 1, 8054), (8168, 8169, 1, 8160), (8170, 8171, 1, 8058),
     (8172, 8172, 1, 8165), (8184, 8185, 1, 8056), (8186, 8187, 1, 8060), (8188, 8188, 1, 8179),
     (8486, 8486, 1, 969), (8490, 8490, 1, 107), (8491, 8491, 1, 229), (8498, 8498, 1, 8526),
     (8544, 8559, 1, 8560), (8579, 8579, 1, 8580), (9398, 9423, 1, 9424),
     (11264, 11311, 1, 11312), (11360, 11360, 1, 11361), (11362, 11362, 1, 619),
     (11363, 11363, 1, 7549), (11364, 11364, 1, 637), (11367, 11371, 2, 11368),
     (11373, 11373, 1, 593), (11374, 11374, 1, 625), (11375, 11375, 1, 592),
     (11376, 11376, 1, 594), (11378, 11378, 1, 11379), (11381, 11381, 1, 11382),
     (11390, 11391, 1, 575), (11392, 11490, 2, 11393), (11499, 11501, 2, 11500),
     (11506, 11506, 1, 11507), (42560, 42604, 2, 42561), (42624, 42650, 2, 42625),
     (42786, 42798, 2, 42787), (42802, 42862, 2, 42803), (42873, 42875, 2, 42874),
     (42877, 42877, 1, 7545), (42878, 42886, 2, 42879), (42891, 42891, 1, 42892),
     (42893, 42893, 1, 613), (42896, 42898, 2, 42897), (42902, 42920, 2, 42903),
     (42922, 42922, 1, 614), (42923, 42923, 1, 604), (42924, 42924, 1, 609),
     (42925, 42925, 1, 620), (42926, 42926, 1, 618), (42928, 42928, 1, 670),
     (42929, 42929, 1, 647), (42930, 42930, 1, 669), (42931, 42931, 1, 43859),
     (42932, 42946, 2, 42933), (42948, 42948, 1, 42900), (42949, 42949, 1, 642),
     (42950, 42950, 1, 7566), (42951, 42953, 2, 42952), (42960, 42960, 1, 42961),
     (42966, 42968, 2, 42967), (42997, 42997, 1, 42998), (65313, 65338, 1, 65345),
     (66560, 66599, 1, 66600), (66736, 66771, 1, 66776), (66928, 66938, 1, 66967),
     (66940, 66954, 1, 66979), (66956, 66962, 1, 66995), (66964, 66965, 1, 67003),
     (68736, 68786, 1, 68800), (71840, 71871, 1, 71872), (93760, 93791, 1, 93792),
     (125184, 125217, 1, 125218)]"

definition case_ignorable_table :: "(nat \<times> nat) list" where
  "case_ignorable_table =
    [(39, 39), (46, 46), (58, 58), (94, 94), (96, 96), (168, 168), (173, 173), (175, 175),
     (180, 180), (183, 184), (688, 879), (884, 885), (890, 890), (900, 901), (903, 903),
     (1155, 1161), (1369, 1369), (1375, 1375), (1425, 1469), (1471, 1471), (1473, 1474),
     (1476, 1477), (1479, 1479), (1524, 1524), (1536, 1541), (1552, 1562), (1564, 1564),
     (1600, 1600), (1611, 1631), (1648, 1648), (1750, 1757), (1759, 1768), (1770, 1773),
     (1807, 1807), (1809, 1809), (1840, 1866), (1958, 1968), (2027, 2037), (2042, 2042),
     (2045, 2045), (2070, 2093), (2137, 2139), (2184, 2184), (2192, 2193), (2200, 2207),
     (2249, 2306), (2362, 2362), (2364, 2364), (2369, 2376), (2381, 2381), (2385, 2391),
     (2402, 2403), (2417, 2417), (2433, 2433), (2492, 2492), (2497, 2500), (2509, 2509),
     (2530, 2531), (2558, 2558), (2561, 2562), (2620, 2620), (2625, 2626), (2631, 2632),
     (2635, 2637), (2641, 2641), (2672, 2673), (2677, 2677), (2689, 2690), (2748, 2748),
     (2753, 2757), (2759, 2760), (2765, 2765), (2786, 2787), (2810, 2815), (2817, 2817),
     (2876, 2876), (2879, 2879), (2881, 2884), (2893, 2893), (2901, 2902), (2914, 2915),
     (2946, 2946), (3008, 3008), (3021, 3021), (3072, 3072), (3076, 3076), (3132, 3132),
     (3134, 3136), (3142, 3144), (3146, 3149), (3157, 3158), (3170, 3171), (3201, 3201),
     (3260, 3260), (3263, 3263), (3270, 3270), (3276, 3277), (3298, 3299), (3328, 3329),
     (3387, 3388), (3393, 3396), (3405, 3405), (3426, 3427), (3457, 3457), (3530, 3530),
     (3538, 3540), (3542, 3542), (3633, 3633), (3636, 3642), (3654, 3662), (3761, 3761),
     (3764, 3772), (3782, 3782), (3784, 3789), (3864, 3865), (3893, 3893), (3895, 3895),
     (3897, 3897), (3953, 3966), (3968, 3972), (3974, 3975), (3981, 3991), (3993, 4028),
     (4038, 4038), (4141, 4144), (4146, 4151), (4153, 4154), (4157, 4158), (4184, 4185),
     (4190, 4192), (4209, 4212), (4226, 4226), (4229, 4230), (4237, 4237), (4253, 4253),
     (4348, 4348), (4957, 4959), (5906, 5908), (5938, 5939), (5970, 5971), (6002, 6003),
     (6068, 6069), (6071, 6077), (6086, 6086), (6089, 6099), (6103, 6103), (6109, 6109),
     (6155, 6159), (6211, 6211), (6277, 6278), (6313, 6313), (6432, 6434), (6439, 6440),
     (6450, 6450), (6457, 6459), (6679, 6680), (6683, 6683), (6742, 6742), (6744, 6750),
     (6752, 6752), (6754, 6754), (6757, 6764), (6771, 6780), (6783, 6783), (6823, 6823),
     (6832, 6862), (6912, 6915), (6964, 6964), (6966, 6970), (6972, 6972), (6978, 6978),
     (7019, 7027), (7040, 7041), (7074, 7077), (7080, 7081), (7083, 7085), (7142, 7142),
     (7144, 7145), (7149, 7149), (7151, 7153), (7212, 7219), (7222, 7223), (7288, 7293),
     (7376, 7378), (7380, 7392), (7394, 7400), (7405, 7405), (7412, 7412), (7416, 7417),
     (7468, 7530), (7544, 7544), (7579, 7679), (8125, 8125), (8127, 8129), (8141, 8143),
     (8157, 8159), (8173, 8175), (8189, 8190), (8203, 8207), (8216, 8217), (8228, 8228),
     (8231, 8231), (8234, 8238), (8288, 8292), (8294, 8303), (8305, 8305), (8319, 8319),
     (8336, 8348), (8400, 8432), (11388, 11389), (11503, 11505), (11631, 11631), (11647, 11647),
     (11744, 11775), (11823, 11823), (12293, 12293), (12330, 12333), (12337, 12341),
     (12347, 12347), (12441, 12446), (12540, 12542), (40981, 40981), (42232, 42237),
     (42508, 42508), (42607, 42610), (42612, 42621), (42623, 42623), (42652, 42655),
     (42736, 42737), (42752, 42785), (42864, 42864), (42888, 42890), (42994, 42996),
     (43000, 43001), (43010, 43010), (43014, 43014), (43019, 43019), (43045, 43046),
     (43052, 43052), (43204, 43205), (43232, 43249), (43263, 43263), (43302, 43309),
     (43335, 43345), (43392, 43394), (43443, 43443), (43446, 43449), (43452, 43453),
     (43471, 43471), (43493, 43494), (43561, 43566), (43569, 43570), (43573, 43574),
     (43587, 43587), (43596, 43596), (43632, 43632), (43644, 43644), (43696, 43696),
     (43698, 43700), (43703, 43704), (43710, 43711), (43713, 43713), (43741, 43741),
     (43756, 43757), (43763, 43764), (43766, 43766), (43867, 43871), (43881, 43883),
     (44005, 44005), (44008, 44008), (44013, 44013), (64286, 64286), (64434, 64450),
     (65024, 65039), (65043, 65043), (65056, 65071), (65106, 65106), (65109, 65109),
     (65279, 65279), (65287, 65287), (65294, 65294), (65306, 65306), (65342, 65342),
     (65344, 65344), (65392, 65392), (65438, 65439), (65507, 65507), (65529, 65531),
     (66045, 66045), (66272, 66272), (66422, 66426), (67456, 67461), (67463, 67504),
     (67506, 67514), (68097, 68099), (68101, 68102), (68108, 68111), (68152, 68154),
     (68159, 68159), (68325, 68326), (68900, 68903), (69291, 69292), (69446, 69456),
     (69506, 69509), (69633, 69633), (69688, 69702), (69744, 69744), (69747, 69748),
     (69759, 69761), (69811, 69814), (69817, 69818), (69821, 69821), (69826, 69826),
     (69837, 69837), (69888, 69890), (69927, 69931), (69933, 69940), (70003, 70003),
     (70016, 70017), (70070, 70078), (70089, 70092), (70095, 70095), (70191, 70193),
     (70196, 70196), (70198, 70199), (70206, 70206), (70367, 70367), (70371, 70378),
     (70400, 70401), (70459, 70460), (70464, 70464), (70502, 70508), (70512, 70516),
     (70712, 70719), (70722, 70724), (70726, 70726), (70750, 70750), (70835, 70840),
     (70842, 70842), (70847, 70848), (70850, 70851), (71090, 71093), (71100, 71101),
     (71103, 71104), (71132, 71133), (71219, 71226), (71229, 71229), (71231, 71232),
     (71339, 71339), (71341, 71341), (71344, 71349), (71351, 71351), (71453, 71455),
     (71458, 71461), (71463, 71467), (71727, 71735), (71737, 71738), (71995, 71996),
     (71998, 71998), (72003, 72003), (72148, 72151), (72154, 72155), (72160, 72160),
     (72193, 72202), (72243, 72248), (72251, 72254), (72263, 72263), (72273, 72278),
     (72281, 72283), (72330, 72342), (72344, 72345), (72752, 72758), (72760, 72765),
     (72767, 72767), (72850, 72871), (72874, 72880), (72882, 72883), (72885, 72886),
     (73009, 73014), (73018, 73018), (73020, 73021), (73023, 73029), (73031, 73031),
     (73104, 73105), (73109, 73109), (73111, 73111), (73459, 73460), (78896, 78904),
     (92912, 92916), (92976, 92982), (92992, 92995), (94031, 94031), (94095, 94111),
     (94176, 94177), (94179, 94180), (110576, 110579), (110581, 110587), (110589, 110590),
     (113821, 113822), (113824, 113827), (118528, 118573), (118576, 118598), (119143, 119145),
     (119155, 119170), (119173, 119179), (119210, 119213), (119362, 119364), (121344, 121398),
     (121403, 121452), (121461, 121461), (121476, 121476), (121499, 121503), (121505, 121519),
     (122880, 122886), (122888, 122904), (122907, 122913), (122915, 122916), (122918, 122922),
     (123184, 123197), (123566, 123566), (123628, 123631), (125136, 125142), (125252, 125259),
     (127995, 127999), (917505, 917505), (917536, 917631), (917760, 917999)]"

definition cased_table :: "(nat \<times> nat) list" where
  "cased_table =
    [(65, 90), (97, 122), (170, 170), (181, 181), (186, 186), (192, 214), (216, 246), (248, 442),
     (444, 447), (452, 659), (661, 687), (880, 883), (886, 887), (891, 893), (895, 895),
     (902, 902), (904, 906), (908, 908), (910, 929), (931, 1013), (1015, 1153), (1162, 1327),
     (1329, 1366), (1376, 1416), (4256, 4293), (4295, 4295), (4301, 4301), (4304, 4346),
     (4349, 4351), (5024, 5109), (5112, 5117), (7296, 7304), (7312, 7354), (7357, 7359),
     (7424, 7467), (7531, 7543), (7545, 7578), (7680, 7957), (7960, 7965), (7968, 8005),
     (8008, 8013), (8016, 8023), (8025, 8025), (8027, 8027), (8029, 8029), (8031, 8061),
     (8064, 8116), (8118, 8124), (8126, 8126), (8130, 8132), (8134, 8140), (8144, 8147),
     (8150, 8155), (8160, 8172), (8178, 8180), (8182, 8188), (8450, 8450), (8455, 8455),
     (8458, 8467), (8469, 8469), (8473, 8477), (8484, 8484), (8486, 8486), (8488, 8488),
     (8490, 8493), (8495, 8500), (8505, 8505), (8508, 8511), (8517, 8521), (8526, 8526),
     (8544, 8575), (8579, 8580), (9398, 9449), (11264, 11387), (11390, 11492), (11499, 11502),
     (11506, 11507), (11520, 11557), (11559, 11559), (11565, 11565), (42560, 42605),
     (42624, 42651), (42786, 42863), (42865, 42887), (42891, 42894), (42896, 42954),
     (42960, 42961), (42963, 42963), (42965, 42969), (42997, 42998), (43002, 43002),
     (43824, 43866), (43872, 43880), (43888, 43967), (64256, 64262), (64275, 64279),
     (65313, 65338), (65345, 65370), (66560, 66639), (66736, 66771), (66776, 66811),
     (66928, 66938), (66940, 66954), (66956, 66962), (66964, 66965), (66967, 66977),
     (66979, 66993), (66995, 67001), (67003, 67004), (68736, 68786), (68800, 68850),
     (71840, 71903), (93760, 93823), (119808, 119892), (119894, 119964), (119966, 119967),
     (119970, 119970), (119973, 119974), (119977, 119980), (119982, 119993), (119995, 119995),
     (119997, 120003), (120005, 120069), (120071, 120074), (120077, 120084), (120086, 120092),
     (120094, 120121), (120123, 120126), (120128, 120132), (120134, 120134), (120138, 120144),
     (120146, 120485), (120488, 120512), (120514, 120538), (120540, 120570), (120572, 120596),
     (120598, 120628), (120630, 120654), (120656, 120686), (120688, 120712), (120714, 120744),
     (120746, 120770), (120772, 120779), (122624, 122633), (122635, 122654), (125184, 125251),
     (127280, 127305), (127312, 127337), (127344, 127369)]"

fun lower_lookup :: "nat \<Rightarrow> (nat \<times> nat \<times> nat \<times> nat) list \<Rightarrow> nat" where
  "lower_lookup c [] = c"
| "lower_lookup c ((lo, hi, step, target) # rs) =
     (if lo \<le> c \<and> c \<le> hi \<and> (c - lo) mod step = 0 then target + (c - lo)
      else lower_lookup c rs)"

definition lower_cp :: "nat \<Rightarrow> pystr" where
  "lower_cp c =
     (if c < 128 then (if 65 \<le> c \<and> c \<le> 90 then [c + 32] else [c])
      else if c = 304 then [105, 775]
      else [lower_lookup c lower_table])"

definition in_table :: "(nat \<times> nat) list \<Rightarrow> nat \<Rightarrow> bool" where
  "in_table rs c = list_ex (\<lambda>(lo, hi). lo \<le> c \<and> c \<le> hi) rs"

text \<open>
  The final-sigma context: going back from the sigma over case-ignorable code points
  there is a cased one, and going forward over case-ignorable code points there is
  none. \<open>left\<close> is the text in front of the sigma, nearest code point first, and
  \<open>right\<close> the text behind it.
\<close>

definition final_sigma :: "pystr \<Rightarrow> pystr \<Rightarrow> bool" where
  "final_sigma left right =
     (case dropWhile (in_table case_ignorable_table) left of
        [] \<Rightarrow> False
      | b # bs \<Rightarrow>
          in_table cased_table b \<and>
          (case dropWhile (in_table case_ignorable_table) right of
             [] \<Rightarrow> True
           | a # as \<Rightarrow> \<not> in_table cased_table a))"

fun lower_from :: "pystr \<Rightarrow> pystr \<Rightarrow> pystr" where
  "lower_from left [] = []"
| "lower_from left (c # cs) =
     (if c = 931 then [if final_sigma left cs then 962 else 963] else lower_cp c)
     @ lower_from (c # left) cs"

definition lower :: "pystr \<Rightarrow> pystr" where
  "lower s = lower_from [] s"

text \<open>\<open>a in b\<close> and \<open>b.startswith(a)\<close> on strings.\<close>

fun startswith :: "pystr \<Rightarrow> pystr \<Rightarrow> bool" where
  "startswith s [] = True"
| "startswith [] (p # ps) = False"
| "startswith (c # cs) (p # ps) = (c = p \<and> startswith cs ps)"

fun contains :: "pystr \<Rightarrow> pystr \<Rightarrow> bool" where
  "contains [] k = (k = [])"
| "contains (c # cs) k = (startswith (c # cs) k \<or> contains cs k)"

text \<open>
  \<open>x and x.strip()\<close> on an \<open>Optional[str]\<close>: the guard of every string field of the
  merge. The result is the stripped text when the guard is truthy.
\<close>

definition stripped :: "pystr option \<Rightarrow> pystr option" where
  "stripped x =
     (case x of
        None \<Rightarrow> None
      | Some s \<Rightarrow> if s \<noteq> [] \<and> strip s \<noteq> [] then Some (strip s) else None)"

text \<open>Truthiness of an \<open>Optional[str]\<close> and of an \<open>Optional[float]\<close>.\<close>

definition truthy_str :: "pystr option \<Rightarrow> bool" where
  "truthy_str x = (case x of None \<Rightarrow> False | Some s \<Rightarrow> s \<noteq> [])"

definition truthy_float :: "rat option \<Rightarrow> bool" where
  "truthy_float x = (case x of None \<Rightarrow> False | Some r \<Rightarrow> r \<noteq> 0)"

subsection \<open>Exceptions\<close>

datatype error = KeyError | TypeError | ValueError | AttributeError

section \<open>Data model (models.py)\<close>

text \<open>
  Pydantic models are records. A \<open>float\<close> field holds a rational (every finite double is
  one); NaN and the infinities are outside the model.
\<close>

record FarmerContext =
  farmer_name :: "pystr option"
  crop :: "pystr option"
  stage :: pystr
  land_size :: "rat option"
  land_unit :: "pystr option"
  location_text :: "pystr option"
  lat :: "rat option"
  lon :: "rat option"
  sowing_date :: "pystr option"
  irrigation :: "pystr option"
  soil_type :: "pystr option"
  farmer_notes :: "pystr option"
  language :: pystr

record Observation =
  symptoms :: "pystr list"
  pests_seen :: "pystr list"
  urgency :: pystr

text \<open>\<open>IntakeExtraction\<close> (graph.py): the per-turn partial update; fields prefixed \<open>upd_\<close>.\<close>

record IntakeExtraction =
  upd_farmer_name :: "pystr option"
  upd_land_size :: "rat option"
  upd_land_unit :: "pystr option"
  upd_crop :: "pystr option"
  upd_stage :: "pystr option"
  upd_location_text :: "pystr option"
  upd_sowing_date :: "pystr option"
  upd_irrigation :: "pystr option"
  upd_soil_type :: "pystr option"
  upd_notes :: "pystr option"
  upd_symptoms :: "pystr list"
  upd_pests_seen :: "pystr list"
  upd_urgency :: "pystr option"

definition ALLOWED_STAGES :: "pystr list" where
  "ALLOWED_STAGES =
     [lit ''unknown'', lit ''pre_sowing'', lit ''sowing'', lit ''germination'',
      lit ''vegetative'', lit ''flowering'', lit ''fruiting'', lit ''maturity'',
      lit ''harvest'', lit ''post_harvest'']"

section \<open>Context merge (graph.py)\<close>

text \<open>
  \<open>_merge_context\<close> dumps the old context to a dict, overwrites the keys whose update
  field passes its guard, and validates the dict back into a \<open>FarmerContext\<close>. The keys
  are independent, so the model is one record update.
\<close>

definition merge_context :: "FarmerContext \<Rightarrow> IntakeExtraction \<Rightarrow> FarmerContext" where
  "merge_context old upd =
     old\<lparr>farmer_name :=
           (case stripped (upd_farmer_name upd) of Some v \<Rightarrow> Some v | None \<Rightarrow> farmer_name old),
         land_size :=
           (case upd_land_size upd of Some x \<Rightarrow> Some x | None \<Rightarrow> land_size old),
         land_unit :=
           (case stripped (upd_land_unit upd) of Some v \<Rightarrow> Some v | None \<Rightarrow> land_unit old),
         crop :=
           (case stripped (upd_crop upd) of Some v \<Rightarrow> Some (lower v) | None \<Rightarrow> crop old),
         stage :=
           (case stripped (upd_stage upd) of
              Some v \<Rightarrow> if lower v \<in> set ALLOWED_STAGES then lower v else stage old
            | None \<Rightarrow> stage old),
         location_text :=
           (case stripped (upd_location_text upd) of
              Some v \<Rightarrow> Some v | None \<Rightarrow> location_text old),
         sowing_date :=
           (case stripped (upd_sowing_date upd) of Some v \<Rightarrow> Some v | None \<Rightarrow> sowing_date old),
         irrigation :=
           (case stripped (upd_irrigation upd) of Some v \<Rightarrow> Some v | None \<Rightarrow> irrigation old),
         soil_type :=
           (case stripped (upd_soil_type upd) of Some v \<Rightarrow> Some v | None \<Rightarrow> soil_type old),
         farmer_notes :=
           (case stripped (upd_notes upd) of Some v \<Rightarrow> Some v | None \<Rightarrow> farmer_notes old)\<rparr>"

text \<open>
  The two \<open>for\<close> loops of \<open>_merge_observation\<close>: each update entry is stripped and
  appended unless it is empty or already present ignoring case.
\<close>

fun append_new :: "pystr list \<Rightarrow> pystr list \<Rightarrow> pystr list" where
  "append_new acc [] = acc"
| "append_new acc (s # ss) =
     (let s' = strip s in
      if s' \<noteq> [] \<and> lower s' \<notin> set (map lower acc)
      then append_new (acc @ [s']) ss
      else append_new acc ss)"

definition urgency_levels :: "pystr list" where
  "urgency_levels = [lit ''low'', lit ''medium'', lit ''high'']"

text \<open>The dict \<open>order\<close>; \<open>order[k]\<close> raises \<open>KeyError\<close> on any other key.\<close>

definition order :: "pystr \<Rightarrow> nat option" where
  "order k =
     (if k = lit ''low'' then Some 0
      else if k = lit ''medium'' then Some 1
      else if k = lit ''high'' then Some 2
      else None)"

definition merge_observation :: "Observation \<Rightarrow> IntakeExtraction \<Rightarrow> error + Observation" where
  "merge_observation old upd =
     (let syms = append_new (symptoms old) (upd_symptoms upd);
          pests = append_new (pests_seen old) (upd_pests_seen upd);
          ret = (\<lambda>u. Inr \<lparr>symptoms = syms, pests_seen = pests, urgency = u\<rparr>)
      in if truthy_str (upd_urgency upd) then
           (let u = lower (strip (the (upd_urgency upd))) in
            if u \<in> set urgency_levels then
              (case (order u, order (urgency old)) of
                 (Some n, Some m) \<Rightarrow> ret (if n > m then u else urgency old)
               | _ \<Rightarrow> Inl KeyError)
            else ret (urgency old))
         else ret (urgency old))"

text \<open>The ordinal of an urgency level, for stating properties of the merge.\<close>

definition rank :: "pystr \<Rightarrow> nat" where
  "rank k = (case order k of Some n \<Rightarrow> n | None \<Rightarrow> 0)"

text \<open>
  The specification's "absent, null, or empty after trimming", for an update field.
\<close>

definition blank :: "pystr option \<Rightarrow> bool" where
  "blank x = (case x of None \<Rightarrow> True | Some s \<Rightarrow> strip s = [])"

subsection \<open>Sample values\<close>

definition ctx_ramesh :: FarmerContext where
  "ctx_ramesh = \<lparr>farmer_name = Some (lit ''Ramesh''), crop = Some (lit ''rice''),
     stage = lit ''germination'', land_size = Some 2, land_unit = Some (lit ''acres''),
     location_text = Some (lit ''Pune''), lat = None, lon = None, sowing_date = None,
     irrigation = None, soil_type = None, farmer_notes = None, language = lit ''en''\<rparr>"

definition obs_leaf :: Observation where
  "obs_leaf = \<lparr>symptoms = [lit ''yellow leaves''], pests_seen = [], urgency = lit ''medium''\<rparr>"

definition upd_sparse :: IntakeExtraction where
  "upd_sparse = \<lparr>upd_farmer_name = None, upd_land_size = None, upd_land_unit = Some [],
     upd_crop = Some (lit ''  ''), upd_stage = Some (lit ''bogus''), upd_location_text = None,
     upd_sowing_date = None, upd_irrigation = None, upd_soil_type = None, upd_notes = None,
     upd_symptoms = [lit '' Yellow Leaves '', lit ''wilting''], upd_pests_seen = [],
     upd_urgency = Some (lit '' HIGH '')\<rparr>"

section \<open>Regular expressions (the \<open>re\<close> module)\<close>

text \<open>
  The patterns of the source are matched by a backtracking matcher with Python's
  priorities: a quantifier is greedy and gives back one repetition at a time, an
  alternative is tried left to right, and the first complete match wins. A match state
  is the text still to be read and the groups captured so far (latest first).
\<close>

datatype re =
    Sym "nat \<Rightarrow> bool"
  | Eps
  | Seq re re
  | Alt re re
  | Star re
  | Grp nat re
  | Bos
  | Eos

type_synonym mstate = "pystr \<times> (nat \<times> pystr) list"

primrec star_iter :: "(mstate \<Rightarrow> mstate list) \<Rightarrow> nat \<Rightarrow> mstate \<Rightarrow> mstate list" where
  "star_iter f 0 x = [x]"
| "star_iter f (Suc n) x =
     concat (map (\<lambda>y. if length (fst y) < length (fst x) then star_iter f n y else []) (f x)) @ [x]"

text \<open>
  \<open>rm r w x\<close>: the states after matching \<open>r\<close> from state \<open>x\<close>, best first; \<open>w\<close> is
  the length of the whole subject (for \<open>^\<close>). \<open>$\<close> matches at the end and before a
  final newline.
\<close>

primrec rm :: "re \<Rightarrow> nat \<Rightarrow> mstate \<Rightarrow> mstate list" where
  "rm (Sym p) w x = (case fst x of [] \<Rightarrow> [] | c # cs \<Rightarrow> if p c then [(cs, snd x)] else [])"
| "rm Eps w x = [x]"
| "rm (Seq a b) w x = concat (map (rm b w) (rm a w x))"
| "rm (Alt a b) w x = rm a w x @ rm b w x"
| "rm (Star r) w x = star_iter (rm r w) (length (fst x)) x"
| "rm (Grp g r) w x =
     map (\<lambda>y. (fst y, (g, take (length (fst x) - length (fst y)) (fst x)) # snd y)) (rm r w x)"
| "rm Bos w x = (if length (fst x) = w then [x] else [])"
| "rm Eos w x = (if fst x = [] \<or> fst x = [10] then [x] else [])"

definition Plus :: "re \<Rightarrow> re" where
  "Plus r = Seq r (Star r)"

definition Opt :: "re \<Rightarrow> re" where
  "Opt r = Alt r Eps"

definition seqs :: "re list \<Rightarrow> re" where
  "seqs rs = foldr Seq rs Eps"

text \<open>\<open>pattern.match(text)\<close> and \<open>pattern.search(text)\<close>: the groups of the first match.\<close>

definition re_match :: "re \<Rightarrow> pystr \<Rightarrow> (nat \<times> pystr) list option" where
  "re_match r s = (case rm r (length s) (s, []) of [] \<Rightarrow> None | y # _ \<Rightarrow> Some (snd y))"

fun search_from :: "re \<Rightarrow> nat \<Rightarrow> pystr \<Rightarrow> (nat \<times> pystr) list option" where
  "search_from r w [] = (case rm r w ([], []) of [] \<Rightarrow> None | y # _ \<Rightarrow> Some (snd y))"
| "search_from r w (c # cs) =
     (case rm r w (c # cs, []) of [] \<Rightarrow> search_from r w cs | y # _ \<Rightarrow> Some (snd y))"

definition re_search :: "re \<Rightarrow> pystr \<Rightarrow> (nat \<times> pystr) list option" where
  "re_search r s = search_from r (length s) s"

definition group :: "(nat \<times> pystr) list \<Rightarrow> nat \<Rightarrow> pystr" where
  "group caps g = (case map_of caps g of Some t \<Rightarrow> t | None \<Rightarrow> [])"

text \<open>
  Character classes. Under \<open>re.IGNORECASE\<close> a lower-case ASCII letter of the pattern
  also matches its capital and the code points the \<open>re\<close> module treats as equivalent:
  U+017F for \<open>s\<close>, U+0130 and U+0131 for \<open>i\<close>, U+212A for \<open>k\<close>.
\<close>

definition ichar :: "nat \<Rightarrow> nat \<Rightarrow> bool" where
  "ichar p c = (c = p \<or> c + 32 = p \<or> (p = 115 \<and> c = 383)
     \<or> (p = 105 \<and> (c = 304 \<or> c = 305)) \<or> (p = 107 \<and> c = 8490))"

definition text_ci :: "string \<Rightarrow> re" where
  "text_ci s = seqs (map (\<lambda>p. Sym (ichar (of_char p))) s)"

text \<open>\<open>[a-z_]\<close> under \<open>re.IGNORECASE\<close>.\<close>

definition az_underscore_ci :: "nat \<Rightarrow> bool" where
  "az_underscore_ci c = ((97 \<le> c \<and> c \<le> 122) \<or> (65 \<le> c \<and> c \<le> 90) \<or> c = 95
     \<or> c = 304 \<or> c = 305 \<or> c = 383 \<or> c = 8490)"

text \<open>
  \<open>\d\<close> in a \<open>str\<close> pattern matches every decimal digit of Unicode (category Nd), and
  \<open>float()\<close> reads each of them as its digit value. The digits come in blocks of ten
  consecutive code points; the list gives the zero of each block (Unicode 14).
\<close>

definition decimal_blocks :: "nat list" where
  "decimal_blocks =
     [48, 1632, 1776, 1984, 2406, 2534, 2662, 2790, 2918, 3046, 3174, 3302, 3430, 3558,
      3664, 3792, 3872, 4160, 4240, 6112, 6160, 6470, 6608, 6784, 6800, 6992, 7088, 7232,
      7248, 42528, 43216, 43264, 43472, 43504, 43600, 44016, 65296, 66720, 68912, 69734,
      69872, 69942, 70096, 70384, 70736, 70864, 71248, 71360, 71472, 71904, 72016, 72784,
      73040, 73120, 92768, 92864, 93008, 120782, 120792, 120802, 120812, 120822, 123200,
      123632, 125264, 130032]"

definition digit_value :: "nat \<Rightarrow> nat option" where
  "digit_value c =
     (case filter (\<lambda>b. b \<le> c \<and> c < b + 10) decimal_blocks of
        [] \<Rightarrow> None
      | b # _ \<Rightarrow> Some (c - b))"

definition isdecimal :: "nat \<Rightarrow> bool" where
  "isdecimal c = (digit_value c \<noteq> None)"

section \<open>Stage statements (graph.py)\<close>

text \<open>
  \<open>_STAGE_UPDATE_RE = ^\s*my\s+stage\s+is\s+([a-z_]+)\.?\s*$\<close> and
  \<open>_STAGE_INLINE_RE = ^\s*stage\s*:\s*([a-z_]+)\s*$\<close>, both with \<open>re.IGNORECASE\<close>.
\<close>

definition STAGE_UPDATE_RE :: re where
  "STAGE_UPDATE_RE =
     seqs [Bos, Star (Sym isspace), text_ci ''my'', Plus (Sym isspace), text_ci ''stage'',
           Plus (Sym isspace), text_ci ''is'', Plus (Sym isspace),
           Grp 1 (Plus (Sym az_underscore_ci)), Opt (Sym (\<lambda>c. c = 46)),
           Star (Sym isspace), Eos]"

definition STAGE_INLINE_RE :: re where
  "STAGE_INLINE_RE =
     seqs [Bos, Star (Sym isspace), text_ci ''stage'', Star (Sym isspace), Sym (\<lambda>c. c = 58),
           Star (Sym isspace), Grp 1 (Plus (Sym az_underscore_ci)), Star (Sym isspace), Eos]"

definition extract_stage_from_text :: "pystr \<Rightarrow> pystr option" where
  "extract_stage_from_text text =
     (if text = [] then None
      else
        (case (case re_match STAGE_UPDATE_RE text of
                 Some m \<Rightarrow> Some m
               | None \<Rightarrow> re_match STAGE_INLINE_RE text) of
           None \<Rightarrow> None
         | Some m \<Rightarrow>
             (let stage = lower (strip (group m 1))
              in if stage \<in> set ALLOWED_STAGES then Some stage else None)))"

definition is_stage_update_message :: "pystr \<Rightarrow> bool" where
  "is_stage_update_message text = (extract_stage_from_text text \<noteq> None)"

section \<open>Coordinates in free text (tools.py)\<close>

text \<open>
  \<open>_LATLON_RE = (?P<lat>-?\d{1,3}(?:\.\d+)?)\s*[, ]\s*(?P<lon>-?\d{1,3}(?:\.\d+)?)\<close>;
  the groups \<open>lat\<close> and \<open>lon\<close> are numbered 1 and 2.
\<close>

definition number_re :: re where
  "number_re =
     seqs [Opt (Sym (\<lambda>c. c = 45)),
           Sym isdecimal, Opt (Seq (Sym isdecimal) (Opt (Sym isdecimal))),
           Opt (Seq (Sym (\<lambda>c. c = 46)) (Plus (Sym isdecimal)))]"

definition LATLON_RE :: re where
  "LATLON_RE =
     seqs [Grp 1 number_re, Star (Sym isspace), Sym (\<lambda>c. c = 44 \<or> c = 32),
           Star (Sym isspace), Grp 2 number_re]"

text \<open>
  \<open>float(s)\<close> on a decimal numeral: an optional sign, digits, and an optional fraction.
  \<open>decimal_value\<close> is the exact value of the numeral; Python then rounds it to the
  nearest double. The rounding is the parameter \<open>to_double\<close> of \<open>extract_lat_lon\<close>.
  A text that is not such a numeral is \<open>None\<close> here, where \<open>float\<close> raises.
\<close>

fun digits_value :: "pystr \<Rightarrow> nat \<Rightarrow> nat option" where
  "digits_value [] acc = Some acc"
| "digits_value (c # cs) acc =
     (case digit_value c of None \<Rightarrow> None | Some d \<Rightarrow> digits_value cs (10 * acc + d))"

definition unsigned_value :: "pystr \<Rightarrow> rat option" where
  "unsigned_value s =
     (let ip = takeWhile (\<lambda>c. c \<noteq> 46) s; rest = dropWhile (\<lambda>c. c \<noteq> 46) s
      in if ip = [] then None
         else
           (case digits_value ip 0 of
              None \<Rightarrow> None
            | Some i \<Rightarrow>
                (case rest of
                   [] \<Rightarrow> Some (of_nat i)
                 | _ # fp \<Rightarrow>
                     (if fp = [] then None
                      else
                        (case digits_value fp 0 of
                           None \<Rightarrow> None
                         | Some f \<Rightarrow> Some (of_nat i + of_nat f / 10 ^ length fp))))))"

definition decimal_value :: "pystr \<Rightarrow> rat option" where
  "decimal_value s =
     (case s of
        [] \<Rightarrow> None
      | c # cs \<Rightarrow>
          if c = 45 then (case unsigned_value cs of None \<Rightarrow> None | Some v \<Rightarrow> Some (- v))
          else unsigned_value s)"

definition extract_lat_lon :: "(rat \<Rightarrow> rat) \<Rightarrow> pystr \<Rightarrow> rat option \<times> rat option" where
  "extract_lat_lon to_double text =
     (if text = [] then (None, None)
      else
        (case re_search LATLON_RE (strip text) of
           None \<Rightarrow> (None, None)
         | Some m \<Rightarrow>
             (case (decimal_value (group m 1), decimal_value (group m 2)) of
                (Some a, Some b) \<Rightarrow>
                  (let lat = to_double a; lon = to_double b
                   in if \<not> (- 90 \<le> lat \<and> lat \<le> 90 \<and> - 180 \<le> lon \<and> lon \<le> 180)
                      then (None, None)
                      else (Some lat, Some lon))
              | _ \<Rightarrow> (None, None))))"

section \<open>Untyped JSON (the output of \<open>json.loads\<close>)\<close>

text \<open>
  A dict is an association list read with \<open>map_of\<close>; \<open>d.get(k)\<close> of a missing key is
  \<open>None\<close>, the same value as a JSON null.
\<close>

datatype json =
    JNull
  | JBool bool
  | JInt int
  | JFloat rat
  | JStr pystr
  | JList "json list"
  | JObj "(pystr \<times> json) list"

definition dget :: "(pystr \<times> json) list \<Rightarrow> string \<Rightarrow> json" where
  "dget d k = (case map_of d (lit k) of None \<Rightarrow> JNull | Some v \<Rightarrow> v)"

fun truthy :: "json \<Rightarrow> bool" where
  "truthy JNull = False"
| "truthy (JBool b) = b"
| "truthy (JInt i) = (i \<noteq> 0)"
| "truthy (JFloat r) = (r \<noteq> 0)"
| "truthy (JStr s) = (s \<noteq> [])"
| "truthy (JList xs) = (xs \<noteq> [])"
| "truthy (JObj d) = (d \<noteq> [])"

text \<open>\<open>a or b\<close>.\<close>

definition por :: "json \<Rightarrow> json \<Rightarrow> json" where
  "por a b = (if truthy a then a else b)"

text \<open>
  \<open>str(x)\<close>: a string is itself. The text Python prints for any other value (a number,
  \<open>True\<close>, a nested list) is the parameter \<open>str_of\<close> of the functions below.
\<close>

definition py_str :: "(json \<Rightarrow> pystr) \<Rightarrow> json \<Rightarrow> pystr" where
  "py_str str_of x = (case x of JStr s \<Rightarrow> s | _ \<Rightarrow> str_of x)"

text \<open>\<open>s.split(sep)\<close> for a one-character separator.\<close>

fun split_on :: "nat \<Rightarrow> pystr \<Rightarrow> pystr \<Rightarrow> pystr list" where
  "split_on sep cur [] = [cur]"
| "split_on sep cur (c # cs) =
     (if c = sep then cur # split_on sep [] cs else split_on sep (cur @ [c]) cs)"

text \<open>
  \<open>re.split(r"[\n\<bullet>\-]+", s)\<close>: the pieces between maximal runs of delimiters,
  with an empty piece before a leading and after a trailing run. \<open>in_run\<close> is true
  while a run is being skipped.
\<close>

fun re_split :: "(nat \<Rightarrow> bool) \<Rightarrow> bool \<Rightarrow> pystr \<Rightarrow> pystr \<Rightarrow> pystr list" where
  "re_split d in_run cur [] = [cur]"
| "re_split d in_run cur (c # cs) =
     (if d c then (if in_run then re_split d True cur cs else cur # re_split d True [] cs)
      else re_split d False (cur @ [c]) cs)"

definition line_delimiter :: "nat \<Rightarrow> bool" where
  "line_delimiter c = (c = 10 \<or> c = 8226 \<or> c = 45)"

text \<open>\<open>[x.strip() for x in xs if x.strip()]\<close>\<close>

definition strip_nonblank :: "pystr list \<Rightarrow> pystr list" where
  "strip_nonblank xs = map strip (filter (\<lambda>x. strip x \<noteq> []) xs)"

section \<open>Response coercion\<close>

record Advisory =
  adv_headline :: pystr
  adv_stage :: pystr
  adv_actions_now :: "pystr list"
  adv_watch_out_for :: "pystr list"
  adv_rationale_brief :: pystr
  adv_safety_notes :: "pystr list"
  adv_confidence :: pystr
  adv_needs_human_review :: bool

record ImageDiagnosis =
  diag_issue :: pystr
  diag_likely_causes :: "pystr list"
  diag_actions_now :: "pystr list"
  diag_watch_out_for :: "pystr list"
  diag_confidence :: pystr
  diag_needs_human_review :: bool

text \<open>
  The list fields of \<open>safe_parse_advisory\<close> (models.py): \<open>v\<close> is \<open>data.get(key) or []\<close>;
  a string is split at newlines, anything that is not a list becomes \<open>[]\<close>, and the
  entries are passed through \<open>str\<close>, stripped, and the blank ones dropped.
\<close>

definition advisory_list :: "(json \<Rightarrow> pystr) \<Rightarrow> json \<Rightarrow> pystr list" where
  "advisory_list str_of v0 =
     (let v = por v0 (JList []);
          v1 = (case v of
                  JStr s \<Rightarrow> JList (map JStr (strip_nonblank (split_on 10 [] s)))
                | _ \<Rightarrow> v);
          xs = (case v1 of JList ys \<Rightarrow> ys | _ \<Rightarrow> [])
      in strip_nonblank (map (py_str str_of) xs))"

text \<open>The confidence and the review flag, coerced the same way by both coercers.\<close>

definition coerce_confidence :: "(json \<Rightarrow> pystr) \<Rightarrow> json \<Rightarrow> pystr" where
  "coerce_confidence str_of v =
     (let conf = lower (strip (py_str str_of (por v (JStr (lit ''medium'')))))
      in if conf \<notin> set [lit ''low'', lit ''medium'', lit ''high''] then lit ''medium'' else conf)"

definition coerce_needs :: "json \<Rightarrow> bool" where
  "coerce_needs v =
     (let needs = (case v of
                     JStr s \<Rightarrow> JBool (lower (strip s) \<in> set [lit ''true'', lit ''yes'', lit ''1''])
                   | _ \<Rightarrow> v)
      in case needs of JBool b \<Rightarrow> b | _ \<Rightarrow> False)"

definition safe_parse_advisory :: "(json \<Rightarrow> pystr) \<Rightarrow> json \<Rightarrow> error + Advisory" where
  "safe_parse_advisory str_of data =
     (case data of
        JObj d \<Rightarrow>
          (let headline0 = strip (py_str str_of (por (dget d ''headline'') (JStr [])));
               headline = (if headline0 = [] then lit ''Advisory update'' else headline0);
               stage = lower (strip (py_str str_of (por (dget d ''stage'') (JStr (lit ''unknown'')))));
               actions_now = take 5 (advisory_list str_of (dget d ''actions_now''));
               watch = take 3 (advisory_list str_of (dget d ''watch_out_for''));
               conf = coerce_confidence str_of (dget d ''confidence'');
               needs = coerce_needs (dget d ''needs_human_review'');
               rationale0 = strip (py_str str_of (por (dget d ''rationale_brief'') (JStr [])));
               rationale = (if length rationale0 > 220 then take 220 rationale0 else rationale0);
               safety = take 2 (advisory_list str_of (dget d ''safety_notes''))
           in Inr \<lparr>adv_headline = headline,
                    adv_stage = (if stage = [] then lit ''unknown'' else stage),
                    adv_actions_now = actions_now,
                    adv_watch_out_for = watch,
                    adv_rationale_brief = rationale,
                    adv_safety_notes = safety,
                    adv_confidence = conf,
                    adv_needs_human_review = needs\<rparr>)
      | _ \<Rightarrow> Inl ValueError)"

text \<open>\<open>_split_lines_to_list\<close> (graph.py).\<close>

definition split_lines_to_list :: "(json \<Rightarrow> pystr) \<Rightarrow> json \<Rightarrow> pystr list" where
  "split_lines_to_list str_of v =
     (case v of
        JNull \<Rightarrow> []
      | JList xs \<Rightarrow> strip_nonblank (map (py_str str_of) xs)
      | JStr s \<Rightarrow> strip_nonblank (re_split line_delimiter False [] (strip s))
      | _ \<Rightarrow> [])"

text \<open>
  The \<open>for\<close> loop of \<open>_coerce_image_diagnosis\<close> over the candidate keys: the first value
  that is a string with non-blank text, stripped.
\<close>

fun first_issue :: "(pystr \<times> json) list \<Rightarrow> string list \<Rightarrow> pystr option" where
  "first_issue d [] = None"
| "first_issue d (k # ks) =
     (case dget d k of
        JStr s \<Rightarrow> if strip s \<noteq> [] then Some (strip s) else first_issue d ks
      | _ \<Rightarrow> first_issue d ks)"

text \<open>
  \<open>_coerce_image_diagnosis\<close> calls \<open>data.get\<close> unguarded: on a value that is not a dict
  Python raises \<open>AttributeError\<close>.
\<close>

definition coerce_image_diagnosis :: "(json \<Rightarrow> pystr) \<Rightarrow> json \<Rightarrow> error + ImageDiagnosis" where
  "coerce_image_diagnosis str_of data =
     (case data of
        JObj d \<Rightarrow>
          (let issue0 = first_issue d [''issue'', ''problem'', ''disease'', ''diagnosis'',
                                       ''issue_detected'', ''observation''];
               issue = (case issue0 of
                          Some s \<Rightarrow> s
                        | None \<Rightarrow>
                            lit ''Unclear issue from image (needs clearer photo or more details).'');
               likely_causes = take 3 (split_lines_to_list str_of
                                 (por (dget d ''likely_causes'') (dget d ''causes'')));
               actions_now = take 3 (split_lines_to_list str_of
                               (por (por (dget d ''actions_now'') (dget d ''actions''))
                                    (dget d ''remedy'')));
               watch_out_for = take 2 (split_lines_to_list str_of
                                 (por (por (dget d ''watch_out_for'') (dget d ''precautions''))
                                      (dget d ''watch'')));
               conf = coerce_confidence str_of (dget d ''confidence'');
               needs = coerce_needs (dget d ''needs_human_review'')
           in Inr \<lparr>diag_issue = issue,
                    diag_likely_causes = likely_causes,
                    diag_actions_now = actions_now,
                    diag_watch_out_for = watch_out_for,
                    diag_confidence = conf,
                    diag_needs_human_review = needs\<rparr>)
      | _ \<Rightarrow> Inl AttributeError)"

text \<open>A rendering of non-string values for the sample evaluations (its choice is free).\<close>

definition str_sample :: "json \<Rightarrow> pystr" where
  "str_sample x = (case x of JInt i \<Rightarrow> (if i = 7 then lit ''7'' else lit ''?'') | _ \<Rightarrow> lit ''?'')"

definition raw_advisory :: json where
  "raw_advisory =
     JObj [(lit ''headline'', JStr []),
           (lit ''actions_now'', JStr (lit (''a'' @ [CHR 0x0A] @ '' b '' @ [CHR 0x0A] @ ''c''
              @ [CHR 0x0A] @ ''d'' @ [CHR 0x0A] @ ''d'' @ [CHR 0x0A] @ ''e''))),
           (lit ''watch_out_for'', JList [JStr (lit '' x ''), JInt 7, JStr (lit ''  '')]),
           (lit ''needs_human_review'', JStr (lit '' Yes ''))]"


section \<open>Session state (models.py)\<close>

text \<open>
  A snapshot's \<open>fetched_at_utc\<close> is a string that the code only ever passes to
  \<open>datetime.fromisoformat\<close>. The field is represented by what that call makes of it:
  no datetime (the call raises), a naive datetime (the text carries no UTC offset), or
  an aware one. Times are in microseconds; an aware datetime is given by its instant on
  the UTC time line. The providers stamp \<open>datetime.now(timezone.utc).isoformat()\<close>,
  which parses to an aware datetime.
\<close>

datatype datetime = Naive int | Aware int

datatype isotext = NotIso | Iso datetime

record WeatherSnapshot =
  weather_fetched_at_utc :: isotext
  weather_summary :: pystr
  weather_alerts :: "pystr list"
  weather_daily :: "json list"

record WebContext =
  web_fetched_at_utc :: isotext
  web_query :: pystr
  web_snippets :: "pystr list"
  web_urls :: "pystr list"

record SchemesContext =
  schemes_fetched_at_utc :: isotext
  schemes_query :: pystr
  schemes_snippets :: "pystr list"
  schemes_urls :: "pystr list"

record MarketContext =
  market_fetched_at_utc :: isotext
  market_query :: pystr
  market_location :: "pystr option"
  market_crop :: "pystr option"
  market_snippets :: "pystr list"
  market_urls :: "pystr list"

record ImageAsset =
  file_path :: pystr
  telegram_file_id :: "pystr option"
  caption :: "pystr option"
  created_at_utc :: pystr

text \<open>
  A message is the dict that \<open>add_user\<close> and \<open>add_assistant\<close> write: a role and a
  content, both strings.
\<close>

record message =
  role :: pystr
  content :: pystr

record GraphState =
  chat_id :: pystr
  turn_count :: int
  last_node :: "pystr option"
  messages :: "message list"
  ctxt :: FarmerContext
  observation :: Observation
  weather :: "WeatherSnapshot option"
  web :: "WebContext option"
  schemes :: "SchemesContext option"
  market :: "MarketContext option"
  last_image :: "ImageAsset option"
  image_diagnosis :: "ImageDiagnosis option"
  advisory :: "Advisory option"

definition add_user :: "pystr \<Rightarrow> GraphState \<Rightarrow> GraphState" where
  "add_user text s = s\<lparr>messages := messages s @ [\<lparr>role = lit ''user'', content = text\<rparr>]\<rparr>"

definition add_assistant :: "pystr \<Rightarrow> GraphState \<Rightarrow> GraphState" where
  "add_assistant text s =
     s\<lparr>messages := messages s @ [\<lparr>role = lit ''assistant'', content = text\<rparr>]\<rparr>"

text \<open>\<open>xs[-k:]\<close> for \<open>k > 0\<close>: the last \<open>k\<close> entries.\<close>

definition last_n :: "nat \<Rightarrow> 'a list \<Rightarrow> 'a list" where
  "last_n k xs = drop (length xs - k) xs"

definition compact_messages :: "GraphState \<Rightarrow> GraphState" where
  "compact_messages s =
     (if length (messages s) > 16 then s\<lparr>messages := last_n 16 (messages s)\<rparr> else s)"

section \<open>Routing (graph.py)\<close>

definition ACTION_PREFIX :: pystr where "ACTION_PREFIX = lit ''__ACTION__:''"
definition ACTION_SCHEMES :: pystr where "ACTION_SCHEMES = lit ''__ACTION__:SCHEMES''"
definition ACTION_MARKET :: pystr where "ACTION_MARKET = lit ''__ACTION__:MARKET''"
definition ACTION_DIGEST :: pystr where "ACTION_DIGEST = lit ''__ACTION__:DIGEST''"
definition ACTION_CROP_RECO :: pystr where "ACTION_CROP_RECO = lit ''__ACTION__:CROP_RECO''"
definition ACTION_BUY :: pystr where "ACTION_BUY = lit ''__ACTION__:BUY''"

text \<open>\<open>_last_user_text\<close>: the loop over \<open>reversed(state.messages)\<close>.\<close>

fun last_user_of :: "message list \<Rightarrow> pystr" where
  "last_user_of [] = []"
| "last_user_of (m # ms) = (if role m = lit ''user'' then strip (content m) else last_user_of ms)"

definition last_user_text :: "GraphState \<Rightarrow> pystr" where
  "last_user_text state = last_user_of (rev (messages state))"

definition is_action_message :: "pystr \<Rightarrow> bool" where
  "is_action_message text = (text \<noteq> [] \<and> startswith text ACTION_PREFIX)"

text \<open>The keyword lists of \<open>_user_wants_crop_reco\<close>: English, Hindi, Marathi.\<close>

definition crop_reco_keywords :: "pystr list" where
  "crop_reco_keywords =
     [lit ''recommend crop'', lit ''suggest crop'', lit ''which crop'', lit ''what crop'',
      lit ''crop suggestion'', lit ''crop recommendations'',
      [2325, 2380, 2344, 32, 2360, 2368, 32, 2347, 2360, 2354],
      [2347, 2360, 2354, 32, 2360, 2369, 2333, 2366, 2357],
      [2347, 2360, 2354, 32, 2348, 2340, 2366, 2323],
      [2347, 2360, 2354, 32] @ lit ''recommend'',
      [2325, 2379, 2339, 2340, 2375, 32, 2346, 2368, 2325],
      [2346, 2368, 2325, 32, 2360, 2369, 2330, 2357, 2366],
      [2346, 2368, 2325, 32] @ lit ''recommendation'',
      [2346, 2368, 2325, 32, 2360, 2369, 2330, 2344, 2366]]"

definition user_wants_crop_reco :: "pystr \<Rightarrow> bool" where
  "user_wants_crop_reco text =
     (if text = [] then False
      else
        (let t = lower (strip text)
         in if t = ACTION_CROP_RECO then True
            else list_ex (contains t) crop_reco_keywords))"

definition wants_schemes :: "GraphState \<Rightarrow> bool" where
  "wants_schemes state = (last_user_text state \<in> set [ACTION_SCHEMES, ACTION_DIGEST])"

definition wants_market :: "GraphState \<Rightarrow> bool" where
  "wants_market state = (last_user_text state \<in> set [ACTION_MARKET, ACTION_DIGEST])"

definition wants_buy :: "GraphState \<Rightarrow> bool" where
  "wants_buy state = (last_user_text state = ACTION_BUY)"

subsection \<open>Staleness\<close>

definition parse_iso_dt :: "isotext \<Rightarrow> datetime option" where
  "parse_iso_dt s = (case s of NotIso \<Rightarrow> None | Iso dt \<Rightarrow> Some dt)"

text \<open>
  \<open>_utc_now() - dt\<close>: \<open>_utc_now()\<close> is aware, and Python refuses to subtract a naive
  datetime from an aware one.
\<close>

definition since :: "int \<Rightarrow> datetime \<Rightarrow> error + int" where
  "since now dt = (case dt of Aware t \<Rightarrow> Inr (now - t) | Naive t \<Rightarrow> Inl TypeError)"

definition hours :: "int \<Rightarrow> int" where
  "hours h = h * 3600000000"

definition days :: "int \<Rightarrow> int" where
  "days d = d * 86400000000"

text \<open>\<open>True if not dt else (_utc_now() - dt) > max_age\<close>\<close>

definition older_than :: "int \<Rightarrow> isotext \<Rightarrow> int \<Rightarrow> error + bool" where
  "older_than now fetched max_age =
     (case parse_iso_dt fetched of
        None \<Rightarrow> Inr True
      | Some dt \<Rightarrow> (case since now dt of Inl e \<Rightarrow> Inl e | Inr age \<Rightarrow> Inr (age > max_age)))"

definition is_weather_stale :: "int \<Rightarrow> GraphState \<Rightarrow> error + bool" where
  "is_weather_stale now state =
     (case weather state of
        None \<Rightarrow> Inr True
      | Some w \<Rightarrow> older_than now (weather_fetched_at_utc w) (hours 6))"

definition is_web_stale :: "int \<Rightarrow> GraphState \<Rightarrow> error + bool" where
  "is_web_stale now state =
     (case web state of
        None \<Rightarrow> Inr True
      | Some w \<Rightarrow> older_than now (web_fetched_at_utc w) (hours 24))"

definition is_schemes_stale :: "int \<Rightarrow> GraphState \<Rightarrow> error + bool" where
  "is_schemes_stale now state =
     (case schemes state of
        None \<Rightarrow> Inr True
      | Some w \<Rightarrow> older_than now (schemes_fetched_at_utc w) (days 7))"

definition is_market_stale :: "int \<Rightarrow> GraphState \<Rightarrow> error + bool" where
  "is_market_stale now state =
     (case market state of
        None \<Rightarrow> Inr True
      | Some w \<Rightarrow> older_than now (market_fetched_at_utc w) (hours 12))"

subsection \<open>The decision list\<close>

definition has_latlon :: "FarmerContext \<Rightarrow> bool" where
  "has_latlon c = (truthy_float (lat c) \<and> truthy_float (lon c))"

definition has_location_text :: "FarmerContext \<Rightarrow> bool" where
  "has_location_text c = (truthy_str (location_text c) \<and> strip (the (location_text c)) \<noteq> [])"

definition needs_profile_questions :: "GraphState \<Rightarrow> bool" where
  "needs_profile_questions state =
     (let c = ctxt state
      in if \<not> truthy_str (farmer_name c) then True
         else if \<not> has_latlon c \<and> \<not> has_location_text c then True
         else if \<not> truthy_str (crop c) then True
         else if stage c = lit ''unknown'' then True
         else if land_size c = None then True
         else False)"

definition has_location :: "GraphState \<Rightarrow> bool" where
  "has_location state = (has_latlon (ctxt state) \<or> has_location_text (ctxt state))"

text \<open>
  \<open>if cond: return node\<close> where evaluating \<open>cond\<close> may raise: the exception leaves
  \<open>_route\<close>.
\<close>

definition return_if :: "error + bool \<Rightarrow> pystr \<Rightarrow> error + pystr \<Rightarrow> error + pystr" where
  "return_if cond node rest =
     (case cond of Inl e \<Rightarrow> Inl e | Inr b \<Rightarrow> if b then Inr node else rest)"

text \<open>\<open>a and f()\<close> where only \<open>f()\<close> may raise: \<open>f\<close> is not called when \<open>a\<close> is false.\<close>

definition and_then :: "bool \<Rightarrow> error + bool \<Rightarrow> error + bool" where
  "and_then a f = (if a then f else Inr False)"

text \<open>\<open>x or y\<close> where both may raise: \<open>y\<close> is evaluated only when \<open>x\<close> is false.\<close>

definition or_else :: "error + bool \<Rightarrow> error + bool \<Rightarrow> error + bool" where
  "or_else x y = (case x of Inl e \<Rightarrow> Inl e | Inr b \<Rightarrow> if b then Inr True else y)"

definition route :: "int \<Rightarrow> GraphState \<Rightarrow> error + pystr" where
  "route now state =
     (let c = ctxt state; last_user = last_user_text state
      in if last_user = ACTION_BUY then Inr (lit ''buy'')
         else if last_user = ACTION_CROP_RECO \<and> has_location state then Inr (lit ''crop_reco'')
         else if is_stage_update_message last_user then Inr (lit ''advice'')
         else if \<not> truthy_str (crop c) \<and> has_location state \<and> last_user \<noteq> ACTION_DIGEST then
           (if last_node state \<noteq> Some (lit ''crop_reco'') \<or> user_wants_crop_reco last_user
            then Inr (lit ''crop_reco'')
            else Inr (lit ''ask''))
         else if last_image state \<noteq> None \<and> image_diagnosis state = None then Inr (lit ''vision'')
         else if needs_profile_questions state \<and> last_user \<noteq> ACTION_DIGEST then Inr (lit ''ask'')
         else
           return_if (and_then (has_latlon c) (is_weather_stale now state)) (lit ''weather'')
          (return_if (or_else (and_then (symptoms (observation state) \<noteq> []) (is_web_stale now state))
                              (and_then (last_user = ACTION_DIGEST) (is_web_stale now state)))
                     (lit ''web'')
          (return_if (and_then (wants_schemes state) (is_schemes_stale now state)) (lit ''schemes'')
          (return_if (and_then (wants_market state) (is_market_stale now state)) (lit ''market'')
          (Inr (lit ''advice''))))))"

text \<open>
  The specification's "most recent user-authored message": the last message of the log
  whose role is \<open>user\<close>.
\<close>

definition most_recent_user_message :: "GraphState \<Rightarrow> message option" where
  "most_recent_user_message state =
     (case filter (\<lambda>m. role m = lit ''user'') (messages state) of
        [] \<Rightarrow> None
      | ms \<Rightarrow> Some (last ms))"

subsection \<open>Sample states\<close>

definition empty_context :: FarmerContext where
  "empty_context = \<lparr>farmer_name = None, crop = None, stage = lit ''unknown'', land_size = None,
     land_unit = None, location_text = None, lat = None, lon = None, sowing_date = None,
     irrigation = None, soil_type = None, farmer_notes = None, language = lit ''en''\<rparr>"

definition empty_state :: GraphState where
  "empty_state = \<lparr>chat_id = [], turn_count = 0, last_node = None, messages = [],
     ctxt = empty_context,
     observation = \<lparr>symptoms = [], pests_seen = [], urgency = lit ''low''\<rparr>,
     weather = None, web = None, schemes = None, market = None, last_image = None,
     image_diagnosis = None, advisory = None\<rparr>"

definition photo :: ImageAsset where
  "photo = \<lparr>file_path = lit ''leaf.jpg'', telegram_file_id = None, caption = None,
     created_at_utc = lit ''2024-01-01T00:00:00+00:00''\<rparr>"

section \<open>Intake (graph.py)\<close>

text \<open>
  The coordinate shortcut of \<open>intake_node\<close>: when \<open>extract_lat_lon\<close> finds a pair,
  \<open>lat\<close> and \<open>lon\<close> are set unless already truthy.
\<close>

definition inject_lat_lon :: "(rat \<Rightarrow> rat) \<Rightarrow> pystr \<Rightarrow> FarmerContext \<Rightarrow> FarmerContext" where
  "inject_lat_lon to_double last_user c =
     (case extract_lat_lon to_double last_user of
        (Some la, Some lo) \<Rightarrow>
          c\<lparr>lat := (if truthy_float (lat c) then lat c else Some la),
            lon := (if truthy_float (lon c) then lon c else Some lo)\<rparr>
      | _ \<Rightarrow> c)"

text \<open>
  \<open>intake_node\<close>. \<open>extraction\<close> is the outcome of the model call and of validating its
  JSON as an \<open>IntakeExtraction\<close>: \<open>None\<close> when either raises (the node catches that).
  The merge itself runs outside the \<open>try\<close>, so its \<open>KeyError\<close> leaves the node.
\<close>

definition intake_node ::
    "(rat \<Rightarrow> rat) \<Rightarrow> IntakeExtraction option \<Rightarrow> GraphState \<Rightarrow> error + GraphState" where
  "intake_node to_double extraction state =
     (let s = state\<lparr>last_node := Some (lit ''intake'')\<rparr>;
          last_user = last_user_text s
      in case extract_stage_from_text last_user of
           Some stage_direct \<Rightarrow> Inr (s\<lparr>ctxt := (ctxt s)\<lparr>stage := stage_direct\<rparr>\<rparr>)
         | None \<Rightarrow>
             if is_action_message last_user then Inr s
             else
               (let s1 = s\<lparr>ctxt := inject_lat_lon to_double last_user (ctxt s)\<rparr>
                in case extraction of
                     None \<Rightarrow> Inr s1
                   | Some upd \<Rightarrow>
                       (case merge_observation (observation s1) upd of
                          Inl e \<Rightarrow> Inl e
                        | Inr ob \<Rightarrow>
                            Inr (s1\<lparr>ctxt := merge_context (ctxt s1) upd, observation := ob\<rparr>))))"

definition naive_snapshot :: WeatherSnapshot where
  "naive_snapshot = \<lparr>weather_fetched_at_utc = Iso (Naive 1704067200000000),
     weather_summary = lit ''Clear sky'', weather_alerts = [], weather_daily = []\<rparr>"

section \<open>The graph of one turn (graph.py, \<open>_build_compiled_graph\<close>)\<close>

text \<open>
  What lies outside the code during one turn: the clock, Python's rendering of
  non-string JSON values, and the outcome of every external call. The providers and the
  model are consulted once per routing iteration at most, so each oracle is indexed by
  the iteration; \<open>None\<close> is a raised \<open>ToolError\<close> (for the vision call: any exception).
  The clock is read as one instant per turn: provider time-outs are seconds, the
  freshness thresholds hours.
\<close>

record env =
  clock :: int
  render :: "json \<Rightarrow> pystr"
  geocode_at :: "nat \<Rightarrow> (rat option \<times> rat option \<times> pystr) option"
  weather_at :: "nat \<Rightarrow> WeatherSnapshot option"
  web_at :: "nat \<Rightarrow> WebContext option"
  schemes_at :: "nat \<Rightarrow> WebContext option"
  market_at :: "nat \<Rightarrow> WebContext option"
  image_at :: "nat \<Rightarrow> bool"
  vision_at :: "nat \<Rightarrow> (pystr \<times> json) option"
  advisory_at :: "nat \<Rightarrow> json option"

text \<open>
  \<open>tools.schemes\<close> and \<open>tools.market_prices\<close> return a \<open>WebContext\<close>; stored under
  \<open>schemes\<close> and \<open>market\<close> it is read back with the fields of those models.
\<close>

definition as_schemes :: "WebContext \<Rightarrow> SchemesContext" where
  "as_schemes w = \<lparr>schemes_fetched_at_utc = web_fetched_at_utc w, schemes_query = web_query w,
     schemes_snippets = web_snippets w, schemes_urls = web_urls w\<rparr>"

definition as_market :: "WebContext \<Rightarrow> MarketContext" where
  "as_market w = \<lparr>market_fetched_at_utc = web_fetched_at_utc w, market_query = web_query w,
     market_location = None, market_crop = None,
     market_snippets = web_snippets w, market_urls = web_urls w\<rparr>"

text \<open>
  Each node returns a dict of the keys it changed, which the graph writes over the
  state; the model returns the state after that write.
\<close>

definition plan_node :: "GraphState \<Rightarrow> GraphState" where
  "plan_node state = state\<lparr>last_node := Some (lit ''plan'')\<rparr>"

text \<open>
  \<open>vision_node\<close>. \<open>image_at\<close>: the image file could be read. \<open>vision_at\<close>: the stripped
  response text and the JSON value parsed from it.
\<close>

definition vision_node :: "env \<Rightarrow> nat \<Rightarrow> GraphState \<Rightarrow> GraphState" where
  "vision_node e i state =
     (let s = state\<lparr>last_node := Some (lit ''vision'')\<rparr>
      in if last_image s = None then s\<lparr>image_diagnosis := None\<rparr>
         else if \<not> image_at e i then s\<lparr>image_diagnosis := None\<rparr>
         else
           (case vision_at e i of
              None \<Rightarrow> s\<lparr>image_diagnosis := None\<rparr>
            | Some (txt, raw0) \<Rightarrow>
                (let raw = (case raw0 of
                              JObj d \<Rightarrow> raw0
                            | _ \<Rightarrow> JObj [(lit ''issue'', JStr (take 140 txt))])
                 in case coerce_image_diagnosis (render e) raw of
                      Inl err \<Rightarrow> s\<lparr>image_diagnosis := None\<rparr>
                    | Inr diag \<Rightarrow> s\<lparr>image_diagnosis := Some diag\<rparr>)))"

definition weather_node :: "env \<Rightarrow> nat \<Rightarrow> GraphState \<Rightarrow> GraphState" where
  "weather_node e i state =
     (let s = state\<lparr>last_node := Some (lit ''weather'')\<rparr>;
          c = ctxt s;
          s1 = (if \<not> has_latlon c \<and> truthy_str (location_text c) then
                  (case geocode_at e i of
                     Some (Some la, Some lo, resolved) \<Rightarrow>
                       s\<lparr>ctxt := c\<lparr>lat := Some la, lon := Some lo,
                                     location_text := Some resolved\<rparr>\<rparr>
                   | _ \<Rightarrow> s)
                else s)
      in if \<not> has_latlon (ctxt s1) then s1
         else (case weather_at e i of Some snap \<Rightarrow> s1\<lparr>weather := Some snap\<rparr> | None \<Rightarrow> s1))"

definition web_node :: "env \<Rightarrow> nat \<Rightarrow> GraphState \<Rightarrow> GraphState" where
  "web_node e i state =
     (let s = state\<lparr>last_node := Some (lit ''web'')\<rparr>
      in case web_at e i of Some c \<Rightarrow> s\<lparr>web := Some c\<rparr> | None \<Rightarrow> s)"

definition schemes_node :: "env \<Rightarrow> nat \<Rightarrow> GraphState \<Rightarrow> GraphState" where
  "schemes_node e i state =
     (let s = state\<lparr>last_node := Some (lit ''schemes'')\<rparr>
      in if \<not> truthy_str (location_text (ctxt s)) then s
         else (case schemes_at e i of
                 Some c \<Rightarrow> s\<lparr>schemes := Some (as_schemes c)\<rparr>
               | None \<Rightarrow> s))"

definition market_node :: "env \<Rightarrow> nat \<Rightarrow> GraphState \<Rightarrow> GraphState" where
  "market_node e i state =
     (let s = state\<lparr>last_node := Some (lit ''market'')\<rparr>
      in case market_at e i of Some c \<Rightarrow> s\<lparr>market := Some (as_market c)\<rparr> | None \<Rightarrow> s)"

text \<open>The nodes with an edge to \<open>END\<close>, and the nodes with an edge back to \<open>plan\<close>.\<close>

definition terminal_nodes :: "pystr list" where
  "terminal_nodes = [lit ''crop_reco'', lit ''buy'', lit ''ask'', lit ''advice'']"


definition exec_node :: "env \<Rightarrow> nat \<Rightarrow> pystr \<Rightarrow> GraphState \<Rightarrow> GraphState" where
  "exec_node e i node s =
     (if node = lit ''vision'' then vision_node e i s
      else if node = lit ''weather'' then weather_node e i s
      else if node = lit ''web'' then web_node e i s
      else if node = lit ''schemes'' then schemes_node e i s
      else if node = lit ''market'' then market_node e i s
      else s)"

text \<open>
  The routing loop \<open>plan \<rightarrow> _route \<rightarrow> node \<rightarrow> plan\<close>. The source sets no bound of its
  own on the iterations, so the model takes a number of iterations to run and says where
  the loop stands after them: an exception left \<open>_route\<close>, a terminal node was reached
  (with the state handed to it), or the loop is still running. The first component is
  the list of the nodes executed on the way.
\<close>

datatype outcome = Raised error | Reached pystr GraphState | StillRunning GraphState

fun run_plan :: "env \<Rightarrow> nat \<Rightarrow> nat \<Rightarrow> GraphState \<Rightarrow> pystr list \<times> outcome" where
  "run_plan e 0 i st = ([], StillRunning st)"
| "run_plan e (Suc n) i st =
     (let s = plan_node st
      in case route (clock e) s of
           Inl err \<Rightarrow> ([], Raised err)
         | Inr node \<Rightarrow>
             if node \<in> set terminal_nodes then ([], Reached node s)
             else (case run_plan e n (Suc i) (exec_node e i node s) of
                     (tr, out) \<Rightarrow> (node # tr, out)))"

definition still_running :: "outcome \<Rightarrow> bool" where
  "still_running out = (case out of StillRunning s \<Rightarrow> True | _ \<Rightarrow> False)"



subsection \<open>Sample environments and states\<close>

definition noon :: int where
  "noon = 1704110400000000"

definition fresh_weather :: WeatherSnapshot where
  "fresh_weather = \<lparr>weather_fetched_at_utc = Iso (Aware noon),
     weather_summary = lit ''Clear sky'', weather_alerts = [], weather_daily = []\<rparr>"

definition fresh_web :: WebContext where
  "fresh_web = \<lparr>web_fetched_at_utc = Iso (Aware noon), web_query = lit ''rice'',
     web_snippets = [], web_urls = []\<rparr>"

definition all_up :: env where
  "all_up = \<lparr>clock = noon, render = str_sample, geocode_at = (\<lambda>i. None),
     weather_at = (\<lambda>i. Some fresh_weather), web_at = (\<lambda>i. Some fresh_web),
     schemes_at = (\<lambda>i. Some fresh_web), market_at = (\<lambda>i. Some fresh_web),
     image_at = (\<lambda>i. True), vision_at = (\<lambda>i. Some (lit ''{}'', JObj [])),
     advisory_at = (\<lambda>i. Some raw_advisory)\<rparr>"


definition ctx_located :: FarmerContext where
  "ctx_located = ctx_ramesh\<lparr>lat := Some (37 / 2), lon := Some (369 / 5)\<rparr>"


definition state_digest :: GraphState where
  "state_digest = add_user ACTION_DIGEST (empty_state\<lparr>ctxt := ctx_located\<rparr>)"

subsection \<open>The five refresh conditions\<close>

text \<open>
  The conditions of the five refresh rules of \<open>_route\<close>, named for stating which steps
  are still due, and the list of the refresh nodes whose condition does not evaluate to
  false. A snapshot timestamp without UTC offset makes its staleness check raise.
\<close>

definition image_pending :: "GraphState \<Rightarrow> bool" where
  "image_pending s = (last_image s \<noteq> None \<and> image_diagnosis s = None)"

definition weather_due :: "int \<Rightarrow> GraphState \<Rightarrow> error + bool" where
  "weather_due t s = and_then (has_latlon (ctxt s)) (is_weather_stale t s)"

definition web_due :: "int \<Rightarrow> GraphState \<Rightarrow> error + bool" where
  "web_due t s =
     or_else (and_then (symptoms (observation s) \<noteq> []) (is_web_stale t s))
             (and_then (last_user_text s = ACTION_DIGEST) (is_web_stale t s))"

definition schemes_due :: "int \<Rightarrow> GraphState \<Rightarrow> error + bool" where
  "schemes_due t s = and_then (wants_schemes s) (is_schemes_stale t s)"

definition market_due :: "int \<Rightarrow> GraphState \<Rightarrow> error + bool" where
  "market_due t s = and_then (wants_market s) (is_market_stale t s)"




definition state_gps :: GraphState where
  "state_gps = state_digest\<lparr>ctxt := ctx_located\<lparr>location_text := None\<rparr>\<rparr>"

section \<open>Terminal steps (graph.py)\<close>

text \<open>
  The first statements of \<open>run_turn\<close>, on its working copy: the inbound message is
  appended, the turn counter incremented and the log compacted.
\<close>

definition turn_start :: "pystr \<Rightarrow> GraphState \<Rightarrow> GraphState" where
  "turn_start user_text state =
     compact_messages ((add_user user_text state)\<lparr>turn_count := turn_count state + 1\<rparr>)"

text \<open>
  The questions of \<open>ask_node\<close>: English, Hindi, Marathi, chosen by
  \<open>en if lang == "en" else (hi if lang == "hi" else mr)\<close>.
\<close>

definition ask_text :: "pystr \<Rightarrow> pystr \<Rightarrow> pystr \<Rightarrow> pystr \<Rightarrow> pystr" where
  "ask_text lang en hi mr = (if lang = lit ''en'' then en else if lang = lit ''hi'' then hi else mr)"

definition ask_name :: "pystr \<Rightarrow> pystr" where
  "ask_name lang =
     ask_text lang (lit ''Name?'')
       ([2344, 2366, 2350, 63])
       ([2344, 2366, 2357, 63])"

definition ask_location :: "pystr \<Rightarrow> pystr" where
  "ask_location lang =
     ask_text lang (lit ''Location (city/village or lat,lon)?'')
       ([2360, 2381, 2341, 2366, 2344, 32, 40, 2327, 2366, 2306, 2357, 47, 2358, 2361,
        2352, 32, 2351, 2366, 32, 108, 97, 116, 44, 108, 111, 110, 41, 63])
       ([2336, 2367, 2325, 2366, 2339, 32, 40, 2327, 2366, 2357, 47, 2358, 2361, 2352,
        32, 2325, 2367, 2306, 2357, 2366, 32, 108, 97, 116, 44, 108, 111, 110,
        41, 63])"

definition ask_crop :: "pystr \<Rightarrow> pystr" where
  "ask_crop lang =
     ask_text lang (lit ''Pick one crop from the suggestions (reply: Crop: ___).'')
       ([2360, 2369, 2333, 2366, 2357, 32, 2360, 2375, 32, 2319, 2325, 32, 2347, 2360,
        2354, 32, 2330, 2369, 2344, 2375, 2306, 32, 40, 2313, 2340, 2381,
        2340, 2352, 58, 32, 67, 114, 111, 112, 58, 32, 95, 95, 95, 41, 46])
       ([2360, 2369, 2330, 2344, 2366, 2306, 2350, 2343, 2370, 2344, 32, 2319, 2325,
        32, 2346, 2368, 2325, 32, 2344, 2367, 2357, 2337, 2366, 32, 40, 2313,
        2340, 2381, 2340, 2352, 58, 32, 67, 114, 111, 112, 58, 32, 95, 95, 95,
        41, 46])"

definition ask_stage :: "pystr \<Rightarrow> pystr" where
  "ask_stage lang =
     ask_text lang (lit ''Stage? (sowing/germination/vegetative/flowering/fruiting/maturity/harvest)'')
       ([2330, 2352, 2339, 63, 32, 40, 2348, 2369, 2357, 2366, 2312, 47, 2309, 2306,
        2325, 2369, 2352, 2339, 47, 2357, 2371, 2342, 2381, 2343, 2367, 47,
        2347, 2370, 2354, 47, 2347, 2354, 47, 2346, 2325, 2344, 2366, 47,
        2325, 2335, 2366, 2312, 41])
       ([2309, 2357, 2360, 2381, 2341, 2366, 63, 32, 40, 2346, 2375, 2352, 2339, 2368,
        47, 2309, 2306, 2325, 2369, 2352, 2339, 47, 2357, 2366, 2338, 47,
        2347, 2369, 2354, 2379, 2352, 2366, 47, 2347, 2355, 47, 2346, 2325,
        2381, 2357, 2340, 2366, 47, 2325, 2366, 2346, 2339, 2368, 41])"

definition ask_land :: "pystr \<Rightarrow> pystr" where
  "ask_land lang =
     ask_text lang (lit ''Land size? (acres/hectare)'')
       ([2332, 2350, 2368, 2344, 63, 32, 40, 2319, 2325, 2337, 2364, 47, 2361, 2375,
        2325, 2381, 2335, 2375, 2351, 2352, 41])
       ([2332, 2350, 2368, 2344, 63, 32, 40, 2319, 2325, 2352, 47, 2361, 2375, 2325,
        2381, 2335, 2352, 41])"

definition ask_symptoms :: "pystr \<Rightarrow> pystr" where
  "ask_symptoms lang =
     ask_text lang (lit ''Send symptoms or photo.'')
       ([2354, 2325, 2381, 2359, 2339, 32, 2351, 2366, 32, 2347, 2379, 2335, 2379, 32,
        2349, 2375, 2332, 2375, 2306, 2404])
       ([2354, 2325, 2381, 2359, 2339, 2306, 32, 2325, 2367, 2306, 2357, 2366, 32,
        2347, 2379, 2335, 2379, 32, 2346, 2366, 2336, 2357, 2366, 46])"

definition ask_node :: "GraphState \<Rightarrow> GraphState" where
  "ask_node state =
     (let s = state\<lparr>last_node := Some (lit ''ask'')\<rparr>;
          c = ctxt s;
          lang = language c;
          msg = (if \<not> truthy_str (farmer_name c) then ask_name lang
                 else if \<not> has_latlon c \<and> \<not> has_location_text c then ask_location lang
                 else if \<not> truthy_str (crop c) then ask_crop lang
                 else if stage c = lit ''unknown'' then ask_stage lang
                 else if land_size c = None then ask_land lang
                 else ask_symptoms lang)
      in (compact_messages (add_assistant msg s))\<lparr>advisory := None\<rparr>)"

text \<open>
  \<open>advice_node\<close>. \<open>advisory_at\<close> is the object \<open>_llm_json\<close> returns, \<open>None\<close> when it
  raises; an exception of the call or of \<open>safe_parse_advisory\<close> takes the \<open>except\<close>
  branch, which appends the fallback reply and returns.
\<close>

definition parsed_advisory :: "env \<Rightarrow> nat \<Rightarrow> Advisory option" where
  "parsed_advisory e i =
     (case advisory_at e i of
        None \<Rightarrow> None
      | Some data \<Rightarrow>
          (case safe_parse_advisory (render e) data of Inl err \<Rightarrow> None | Inr adv \<Rightarrow> Some adv))"

definition advice_node :: "env \<Rightarrow> nat \<Rightarrow> GraphState \<Rightarrow> GraphState" where
  "advice_node e i state =
     (let s = state\<lparr>last_node := Some (lit ''advice'')\<rparr>
      in case parsed_advisory e i of
           None \<Rightarrow>
             (add_assistant (lit ''Send crop + stage + location (or upload a clear photo).'') s)
               \<lparr>advisory := None\<rparr>
         | Some adv \<Rightarrow>
             (compact_messages (add_assistant (adv_headline adv) s))\<lparr>advisory := Some adv\<rparr>)"

text \<open>
  \<open>crop_reco_node\<close>. The soil search only feeds the prompt and is left out. The
  staleness check may raise. On failure of the model call the returned dict holds the
  messages, the advisory and the node name only, so the context, weather and web the
  node fetched are dropped.
\<close>

definition crop_reco_node :: "env \<Rightarrow> nat \<Rightarrow> GraphState \<Rightarrow> error + GraphState" where
  "crop_reco_node e i state =
     (let s = state\<lparr>last_node := Some (lit ''crop_reco'')\<rparr>;
          c = ctxt s;
          s1 = (if \<not> has_latlon c \<and> truthy_str (location_text c) then
                  (case geocode_at e i of
                     Some (Some la, Some lo, resolved) \<Rightarrow>
                       s\<lparr>ctxt := c\<lparr>lat := Some la, lon := Some lo,
                                     location_text := Some resolved\<rparr>\<rparr>
                   | _ \<Rightarrow> s)
                else s)
      in case and_then (has_latlon (ctxt s1)) (is_weather_stale (clock e) s1) of
           Inl err \<Rightarrow> Inl err
         | Inr due \<Rightarrow>
             (let s2 = (if due then
                          (case weather_at e i of Some w \<Rightarrow> s1\<lparr>weather := Some w\<rparr> | None \<Rightarrow> s1)
                        else s1);
                  s3 = (case web_at e i of Some cx \<Rightarrow> s2\<lparr>web := Some cx\<rparr> | None \<Rightarrow> s2)
              in case parsed_advisory e i of
                   None \<Rightarrow>
                     Inr ((add_assistant (lit ''Share location and ask: recommend crops.'') s)
                            \<lparr>advisory := None\<rparr>)
                 | Some adv \<Rightarrow>
                     Inr (compact_messages
                            (add_assistant (adv_headline adv) (s3\<lparr>advisory := Some adv\<rparr>)))))"

subsection \<open>Sample: a full log and a model that fails\<close>

definition state_long :: GraphState where
  "state_long =
     empty_state\<lparr>ctxt := ctx_located,
       messages := replicate 8 \<lparr>role = lit ''user'', content = lit ''hello''\<rparr>
                   @ replicate 8 \<lparr>role = lit ''assistant'', content = lit ''Advisory update''\<rparr>\<rparr>"

definition model_down :: env where
  "model_down = all_up\<lparr>advisory_at := (\<lambda>i. None)\<rparr>"

section \<open>Objects and aliasing: \<open>run_turn\<close> on a store\<close>

text \<open>
  Whether \<open>run_turn\<close> mutates the state it is handed depends on which Python objects
  are shared, so here the objects live in a store. Two kinds of object are mutated in
  place anywhere in the source: a \<open>GraphState\<close> (attribute assignment) and the list
  behind its \<open>messages\<close> attribute (\<open>append\<close>). A state object holds its attribute values
  and the address of its message list; the \<open>messages\<close> component of the stored record
  is not read. The nested models (context, observation, snapshots) are only ever
  replaced, never mutated, and stay values. Addresses are handed out in increasing
  order.
\<close>

type_synonym addr = nat

datatype cell = StateObj GraphState addr | ListObj "message list"

record store =
  cells :: "addr \<Rightarrow> cell option"
  next_free :: addr

definition alloc :: "cell \<Rightarrow> store \<Rightarrow> store \<times> addr" where
  "alloc c h = (h\<lparr>cells := (cells h)(next_free h \<mapsto> c), next_free := Suc (next_free h)\<rparr>,
                next_free h)"

text \<open>The attribute values and the message list of the state object at an address.\<close>

definition state_at :: "store \<Rightarrow> addr \<Rightarrow> (GraphState \<times> addr \<times> message list) option" where
  "state_at h a =
     (case cells h a of
        Some (StateObj f m) \<Rightarrow>
          (case cells h m of Some (ListObj ms) \<Rightarrow> Some (f, m, ms) | _ \<Rightarrow> None)
      | _ \<Rightarrow> None)"

definition read_state :: "store \<Rightarrow> addr \<Rightarrow> GraphState option" where
  "read_state h a =
     (case state_at h a of None \<Rightarrow> None | Some (f, m, ms) \<Rightarrow> Some (f\<lparr>messages := ms\<rparr>))"

text \<open>\<open>state.model_copy(deep=True)\<close>: a new state object with a new list.\<close>

definition model_copy_deep :: "store \<Rightarrow> addr \<Rightarrow> (store \<times> addr) option" where
  "model_copy_deep h a =
     (case state_at h a of
        None \<Rightarrow> None
      | Some (f, m, ms) \<Rightarrow>
          (case alloc (ListObj ms) h of
             (h1, m') \<Rightarrow> Some (alloc (StateObj f m') h1)))"

text \<open>\<open>state.model_copy()\<close>, for comparison: a new state object sharing the list.\<close>

definition model_copy_shallow :: "store \<Rightarrow> addr \<Rightarrow> (store \<times> addr) option" where
  "model_copy_shallow h a =
     (case state_at h a of
        None \<Rightarrow> None
      | Some (f, m, ms) \<Rightarrow> Some (alloc (StateObj f m) h))"

text \<open>\<open>s.add_user(text)\<close>: \<open>self.messages.append(...)\<close> mutates the list object.\<close>

definition add_user_at :: "pystr \<Rightarrow> store \<Rightarrow> addr \<Rightarrow> store option" where
  "add_user_at text h a =
     (case state_at h a of
        None \<Rightarrow> None
      | Some (f, m, ms) \<Rightarrow>
          Some (h\<lparr>cells := (cells h)(m \<mapsto> ListObj (ms @ [\<lparr>role = lit ''user'', content = text\<rparr>]))\<rparr>))"

text \<open>\<open>s.turn_count += 1\<close>\<close>

definition incr_turn_count_at :: "store \<Rightarrow> addr \<Rightarrow> store option" where
  "incr_turn_count_at h a =
     (case state_at h a of
        None \<Rightarrow> None
      | Some (f, m, ms) \<Rightarrow>
          Some (h\<lparr>cells := (cells h)(a \<mapsto> StateObj (f\<lparr>turn_count := turn_count f + 1\<rparr>) m)\<rparr>))"

text \<open>
  \<open>s.compact_messages()\<close>: the slice is a new list, assigned to the attribute.
\<close>

definition compact_messages_at :: "store \<Rightarrow> addr \<Rightarrow> store option" where
  "compact_messages_at h a =
     (case state_at h a of
        None \<Rightarrow> None
      | Some (f, m, ms) \<Rightarrow>
          if length ms > 16 then
            (case alloc (ListObj (last_n 16 ms)) h of
               (h1, m') \<Rightarrow> Some (h1\<lparr>cells := (cells h1)(a \<mapsto> StateObj f m')\<rparr>))
          else Some h)"

text \<open>
  \<open>GraphState.model_validate(merged)\<close>: a new state object and a new list built from a
  value.
\<close>

definition new_state :: "GraphState \<Rightarrow> store \<Rightarrow> store \<times> addr" where
  "new_state v h =
     (case alloc (ListObj (messages v)) h of (h1, m) \<Rightarrow> alloc (StateObj v m) h1)"

text \<open>
  What \<open>self.graph.ainvoke(s)\<close> hands back: a \<open>GraphState\<close> object, a dict (given by the
  values it writes over those of \<open>s\<close>), something else, or an exception.
\<close>

datatype graph_out =
    OutState addr
  | OutDict "GraphState \<Rightarrow> GraphState"
  | OutOther
  | OutRaise error

text \<open>
  \<open>run_turn\<close>. The compiled graph is a parameter: a function on the store. In the
  dict case the result is validated from the dump of \<open>s\<close> overwritten by the dict; a value
  that is neither a state nor a dict fails validation.
\<close>

definition run_turn ::
    "(store \<Rightarrow> addr \<Rightarrow> store \<times> graph_out) \<Rightarrow> store \<Rightarrow> addr \<Rightarrow> pystr
       \<Rightarrow> (store \<times> (error + addr)) option" where
  "run_turn graph h state user_text =
     (case model_copy_deep h state of
        None \<Rightarrow> None
      | Some (h1, s) \<Rightarrow>
          (case add_user_at user_text h1 s of
             None \<Rightarrow> None
           | Some h2 \<Rightarrow>
               (case incr_turn_count_at h2 s of
                  None \<Rightarrow> None
                | Some h3 \<Rightarrow>
                    (case compact_messages_at h3 s of
                       None \<Rightarrow> None
                     | Some h4 \<Rightarrow>
                         (case graph h4 s of
                            (h5, OutState b) \<Rightarrow> Some (h5, Inr b)
                          | (h5, OutDict upd) \<Rightarrow>
                              (case read_state h5 s of
                                 None \<Rightarrow> None
                               | Some base \<Rightarrow>
                                   (case new_state (upd base) h5 of
                                      (h6, b) \<Rightarrow> Some (h6, Inr b)))
                          | (h5, OutOther) \<Rightarrow> Some (h5, Inl ValueError)
                          | (h5, OutRaise err) \<Rightarrow> Some (h5, Inl err))))))"

text \<open>
  A store is well formed when every object lies below \<open>next_free\<close>. The graph is
  assumed to respect the objects it was not given: on a well-formed store and a state
  object \<open>s\<close>, it leaves every object other than \<open>s\<close> and the list of \<open>s\<close> as it was,
  keeps \<open>s\<close> a state object, only adds objects, and a state object it returns is \<open>s\<close> or
  new, with a list that is the list of \<open>s\<close> or new. Every node of the source starts with
  \<open>state.model_copy(deep=True)\<close> and assigns only to that copy.
\<close>

definition wf_store :: "store \<Rightarrow> bool" where
  "wf_store h = (\<forall>a. cells h a \<noteq> None \<longrightarrow> a < next_free h)"

definition graph_frame :: "(store \<Rightarrow> addr \<Rightarrow> store \<times> graph_out) \<Rightarrow> bool" where
  "graph_frame graph =
     (\<forall>h s f m ms. wf_store h \<and> state_at h s = Some (f, m, ms) \<longrightarrow>
        (case graph h s of
           (h', out) \<Rightarrow>
             wf_store h' \<and> next_free h \<le> next_free h'
           \<and> (\<forall>x. x < next_free h \<and> x \<noteq> s \<and> x \<noteq> m \<longrightarrow> cells h' x = cells h x)
           \<and> state_at h' s \<noteq> None
           \<and> (case out of
                 OutState b \<Rightarrow>
                   (case state_at h' b of
                      None \<Rightarrow> False
                    | Some (f', m', ms') \<Rightarrow>
                        (b = s \<or> next_free h \<le> b) \<and> (m' = m \<or> next_free h \<le> m'))
               | _ \<Rightarrow> True)))"

text \<open>
  \<open>apart h s h'\<close>: the store \<open>h'\<close> extends the well-formed store \<open>h\<close> without changing
  any of its objects, and \<open>s\<close> is a state object of \<open>h'\<close> that, like its list, is not an
  object of \<open>h\<close>.
\<close>

definition apart :: "store \<Rightarrow> addr \<Rightarrow> store \<Rightarrow> bool" where
  "apart h s h' =
     (wf_store h' \<and> next_free h \<le> next_free h'
      \<and> (\<forall>x. x < next_free h \<longrightarrow> cells h' x = cells h x)
      \<and> next_free h \<le> s
      \<and> (case state_at h' s of None \<Rightarrow> False | Some (f, m, ms) \<Rightarrow> next_free h \<le> m))"

subsection \<open>Sample store and graph\<close>

definition store0 :: store where
  "store0 = \<lparr>cells = [0 \<mapsto> StateObj (state_long\<lparr>messages := []\<rparr>) 1,
                       1 \<mapsto> ListObj (messages state_long)], next_free = 2\<rparr>"

text \<open>
  A graph that appends a reply to the list of the state it is given, in place, and
  returns a dict naming the last node.
\<close>

definition reply_graph :: "store \<Rightarrow> addr \<Rightarrow> store \<times> graph_out" where
  "reply_graph h s =
     (case state_at h s of
        None \<Rightarrow> (h, OutRaise AttributeError)
      | Some (f, m, ms) \<Rightarrow>
          (h\<lparr>cells := (cells h)(m \<mapsto> ListObj (ms @ [\<lparr>role = lit ''assistant'',
                                                       content = lit ''Advisory update''\<rparr>]))\<rparr>,
           OutDict (\<lambda>v. v\<lparr>last_node := Some (lit ''advice'')\<rparr>)))"

section \<open>Properties of the merge\<close>

lemma stripped_None_iff: "stripped x = None \<longleftrightarrow> (x = None \<or> strip (the x) = [])"
  by (cases x) (auto simp: stripped_def strip_def lstrip_def rstrip_def)

lemma append_new_prefix: "prefix acc (append_new acc ss)"
proof (induction ss arbitrary: acc)
  case Nil
  show ?case by simp
next
  case (Cons s ss)
  have "prefix acc (acc @ [strip s])" by simp
  with Cons.IH [of "acc @ [strip s]"] have "prefix acc (append_new (acc @ [strip s]) ss)"
    using prefix_order.order_trans by blast
  with Cons.IH [of acc] show ?case by (simp add: Let_def)
qed

lemma order_levels: "k \<in> set urgency_levels \<Longrightarrow> \<exists>n. order k = Some n"
  by (auto simp: urgency_levels_def order_def)

lemma order_Some_levels: "order k = Some n \<Longrightarrow> k \<in> set urgency_levels"
  by (auto simp: urgency_levels_def order_def split: if_splits)

lemmas pystr_simps = lit_def strip_def lstrip_def rstrip_def isspace_def lower_def lower_cp_def

lemma blank_stripped: "blank x \<Longrightarrow> stripped x = None"
  by (auto simp: blank_def stripped_def split: option.splits)

lemma blank_not_truthy_or: "blank x \<Longrightarrow> truthy_str x \<Longrightarrow> lower (strip (the x)) \<notin> set urgency_levels"
  by (auto simp: blank_def truthy_str_def lower_def urgency_levels_def lit_def split: option.splits)

text \<open>
  Claim C1. For every farmer context \<open>C\<close>, observation \<open>Ob\<close> and extraction update
  \<open>U\<close>: each context field whose update is absent or empty after trimming keeps its
  prior value, and the fields the merge never reads (latitude, longitude, language) are
  kept always. The observation merge raises only when the old urgency is outside the
  enumeration and the update carries an urgency; otherwise the old symptoms and pests are
  a prefix of the new lists, an empty update list leaves the list as it was, and an
  absent or blank update urgency leaves the urgency as it was.
\<close>

theorem merge_non_destructive:
  "(blank (upd_farmer_name U) \<longrightarrow> farmer_name (merge_context C U) = farmer_name C)
 \<and> (upd_land_size U = None \<longrightarrow> land_size (merge_context C U) = land_size C)
 \<and> (blank (upd_land_unit U) \<longrightarrow> land_unit (merge_context C U) = land_unit C)
 \<and> (blank (upd_crop U) \<longrightarrow> crop (merge_context C U) = crop C)
 \<and> (blank (upd_stage U) \<longrightarrow> stage (merge_context C U) = stage C)
 \<and> (blank (upd_location_text U) \<longrightarrow> location_text (merge_context C U) = location_text C)
 \<and> (blank (upd_sowing_date U) \<longrightarrow> sowing_date (merge_context C U) = sowing_date C)
 \<and> (blank (upd_irrigation U) \<longrightarrow> irrigation (merge_context C U) = irrigation C)
 \<and> (blank (upd_soil_type U) \<longrightarrow> soil_type (merge_context C U) = soil_type C)
 \<and> (blank (upd_notes U) \<longrightarrow> farmer_notes (merge_context C U) = farmer_notes C)
 \<and> lat (merge_context C U) = lat C \<and> lon (merge_context C U) = lon C
 \<and> language (merge_context C U) = language C
 \<and> (case merge_observation Ob U of
       Inl e \<Rightarrow> urgency Ob \<notin> set urgency_levels \<and> \<not> blank (upd_urgency U)
     | Inr Ob' \<Rightarrow>
         prefix (symptoms Ob) (symptoms Ob') \<and> prefix (pests_seen Ob) (pests_seen Ob')
       \<and> (upd_symptoms U = [] \<longrightarrow> symptoms Ob' = symptoms Ob)
       \<and> (upd_pests_seen U = [] \<longrightarrow> pests_seen Ob' = pests_seen Ob)
       \<and> (blank (upd_urgency U) \<longrightarrow> urgency Ob' = urgency Ob))"
proof -
  have ctx: "\<And>f. blank f \<Longrightarrow> stripped f = None" by (rule blank_stripped)
  have obs: "case merge_observation Ob U of
       Inl e \<Rightarrow> urgency Ob \<notin> set urgency_levels \<and> \<not> blank (upd_urgency U)
     | Inr Ob' \<Rightarrow>
         prefix (symptoms Ob) (symptoms Ob') \<and> prefix (pests_seen Ob) (pests_seen Ob')
       \<and> (upd_symptoms U = [] \<longrightarrow> symptoms Ob' = symptoms Ob)
       \<and> (upd_pests_seen U = [] \<longrightarrow> pests_seen Ob' = pests_seen Ob)
       \<and> (blank (upd_urgency U) \<longrightarrow> urgency Ob' = urgency Ob)"
    using blank_not_truthy_or [of "upd_urgency U"]
    by (auto simp: merge_observation_def Let_def append_new_prefix
             split: sum.splits option.splits if_splits dest: order_Some_levels order_levels)
  show ?thesis
    using obs by (simp add: merge_context_def ctx)
qed

theorem merge_non_destructive_witness:
  "blank (upd_farmer_name upd_sparse) \<and> blank (upd_crop upd_sparse) \<and> blank (upd_land_unit upd_sparse)
   \<and> farmer_name (merge_context ctx_ramesh upd_sparse) = Some (lit ''Ramesh'')
   \<and> crop (merge_context ctx_ramesh upd_sparse) = Some (lit ''rice'')
   \<and> land_unit (merge_context ctx_ramesh upd_sparse) = Some (lit ''acres'')
   \<and> land_size (merge_context ctx_ramesh upd_sparse) = Some 2
   \<and> (\<exists>Ob'. merge_observation obs_leaf upd_sparse = Inr Ob'
         \<and> prefix [lit ''yellow leaves''] (symptoms Ob') \<and> pests_seen Ob' = [])"
proof -
  have b: "blank (upd_farmer_name upd_sparse)" "blank (upd_crop upd_sparse)"
    "blank (upd_land_unit upd_sparse)" "upd_land_size upd_sparse = None"
    "upd_pests_seen upd_sparse = []"
    by (simp_all add: upd_sparse_def blank_def pystr_simps)
  have ret: "\<exists>Ob'. merge_observation obs_leaf upd_sparse = Inr Ob'"
    by (simp add: merge_observation_def upd_sparse_def obs_leaf_def Let_def truthy_str_def
          urgency_levels_def order_def pystr_simps)
  then obtain Ob' where Ob': "merge_observation obs_leaf upd_sparse = Inr Ob'" ..
  have c: "farmer_name ctx_ramesh = Some (lit ''Ramesh'')" "crop ctx_ramesh = Some (lit ''rice'')"
    "land_unit ctx_ramesh = Some (lit ''acres'')" "land_size ctx_ramesh = Some 2"
    "symptoms obs_leaf = [lit ''yellow leaves'']" "pests_seen obs_leaf = []"
    by (simp_all add: ctx_ramesh_def obs_leaf_def)
  show ?thesis
    using merge_non_destructive [of upd_sparse ctx_ramesh obs_leaf] b c Ob' by simp
qed

lemma rank_inj: "a \<in> set urgency_levels \<Longrightarrow> b \<in> set urgency_levels \<Longrightarrow> rank a = rank b \<Longrightarrow> a = b"
  by (auto simp: urgency_levels_def rank_def order_def lit_def)

text \<open>
  Claim C5. When the old urgency is one of low, medium, high, the observation merge
  returns, the new urgency is again one of the three levels and its ordinal is never
  below the old one; when the update urgency is a recognised level (after trimming and
  lower-casing, as the code reads it) the new ordinal is the maximum of the two and the
  new urgency is one of the two values.
\<close>

theorem urgency_monotone:
  assumes "urgency Ob \<in> set urgency_levels"
  shows "\<exists>Ob'. merge_observation Ob U = Inr Ob'
     \<and> urgency Ob' \<in> set urgency_levels
     \<and> rank (urgency Ob) \<le> rank (urgency Ob')
     \<and> (\<forall>raw. upd_urgency U = Some raw \<and> lower (strip raw) \<in> set urgency_levels \<longrightarrow>
           rank (urgency Ob') = max (rank (urgency Ob)) (rank (lower (strip raw)))
         \<and> (urgency Ob' = urgency Ob \<or> urgency Ob' = lower (strip raw)))"
proof -
  obtain m where m: "order (urgency Ob) = Some m" using assms order_levels by blast
  show ?thesis
  proof (cases "truthy_str (upd_urgency U) \<and> lower (strip (the (upd_urgency U))) \<in> set urgency_levels")
    case True
    then obtain n where n: "order (lower (strip (the (upd_urgency U)))) = Some n"
      using order_levels by blast
    from True obtain raw where raw: "upd_urgency U = Some raw"
      by (auto simp: truthy_str_def split: option.splits)
    show ?thesis using True m n raw assms
      by (auto simp: merge_observation_def Let_def rank_def max_def)
  next
    case False
    have nil: "lower (strip []) \<notin> set urgency_levels"
      by (simp add: pystr_simps urgency_levels_def)
    have "merge_observation Ob U = Inr \<lparr>symptoms = append_new (symptoms Ob) (upd_symptoms U),
        pests_seen = append_new (pests_seen Ob) (upd_pests_seen U), urgency = urgency Ob\<rparr>"
      using False by (auto simp: merge_observation_def Let_def)
    moreover have "\<And>raw. upd_urgency U = Some raw \<Longrightarrow> lower (strip raw) \<notin> set urgency_levels"
      using False nil by (auto simp: truthy_str_def)
    ultimately show ?thesis using assms by auto
  qed
qed

theorem urgency_monotone_witness:
  "urgency obs_leaf \<in> set urgency_levels
   \<and> (\<exists>Ob'. merge_observation obs_leaf upd_sparse = Inr Ob' \<and> urgency Ob' = lit ''high''
        \<and> rank (urgency obs_leaf) = 1 \<and> rank (urgency Ob') = 2)"
proof -
  have h: "urgency obs_leaf \<in> set urgency_levels"
    by (simp add: obs_leaf_def urgency_levels_def)
  have u: "upd_urgency upd_sparse = Some (lit '' HIGH '')" by (simp add: upd_sparse_def)
  have l: "lower (strip (lit '' HIGH '')) = lit ''high''" by (simp add: pystr_simps)
  have r: "rank (urgency obs_leaf) = 1" "rank (lit ''high'') = 2"
    by (simp_all add: obs_leaf_def rank_def order_def lit_def)
  from urgency_monotone [OF h, of upd_sparse] obtain Ob' where
    a: "merge_observation obs_leaf upd_sparse = Inr Ob'" and
    b: "urgency Ob' \<in> set urgency_levels" and
    c: "\<forall>raw. upd_urgency upd_sparse = Some raw \<and> lower (strip raw) \<in> set urgency_levels \<longrightarrow>
           rank (urgency Ob') = max (rank (urgency obs_leaf)) (rank (lower (strip raw)))
         \<and> (urgency Ob' = urgency obs_leaf \<or> urgency Ob' = lower (strip raw))" by blast
  from c u l have "rank (urgency Ob') = max 1 2"
    using r by (simp add: urgency_levels_def)
  then have "rank (urgency Ob') = rank (lit ''high'')" using r by simp
  then have "urgency Ob' = lit ''high''"
    using rank_inj [OF b, of "lit ''high''"] by (simp add: urgency_levels_def)
  with a h r show ?thesis by simp
qed

section \<open>Properties of the response coercion\<close>









lemma py_str_JStr: "py_str f \<circ> JStr = id"
  by (simp add: fun_eq_iff py_str_def)

lemma strip_nonblank_JStr: "strip_nonblank (map (py_str f) (map JStr xs)) = strip_nonblank xs"
  by (simp add: py_str_JStr)












section \<open>Properties of the coordinate parser\<close>

lemmas re_simps = re_match_def re_search_def seqs_def Plus_def Opt_def
   text_ci_def ichar_def az_underscore_ci_def

text \<open>
  Claim C10. For every input text and every rounding of decimals to doubles,
  \<open>extract_lat_lon\<close> returns either \<open>(None, None)\<close> or a pair with latitude in
  \<open>[-90, 90]\<close> and longitude in \<open>[-180, 180]\<close>; it has no other outcome. The
  coordinate shortcut of the intake step therefore leaves each of \<open>lat\<close> and \<open>lon\<close>
  as it was or sets it to a value in range.
\<close>

theorem extract_lat_lon_in_range:
  "(case extract_lat_lon to_double text of
      (None, None) \<Rightarrow> True
    | (Some la, Some lo) \<Rightarrow> - 90 \<le> la \<and> la \<le> 90 \<and> - 180 \<le> lo \<and> lo \<le> 180
    | _ \<Rightarrow> False)
   \<and> (lat (inject_lat_lon to_double text c) = lat c
        \<or> (\<exists>la. lat (inject_lat_lon to_double text c) = Some la \<and> - 90 \<le> la \<and> la \<le> 90))
   \<and> (lon (inject_lat_lon to_double text c) = lon c
        \<or> (\<exists>lo. lon (inject_lat_lon to_double text c) = Some lo \<and> - 180 \<le> lo \<and> lo \<le> 180))"
proof -
  have r: "case extract_lat_lon to_double text of
      (None, None) \<Rightarrow> True
    | (Some la, Some lo) \<Rightarrow> - 90 \<le> la \<and> la \<le> 90 \<and> - 180 \<le> lo \<and> lo \<le> 180
    | _ \<Rightarrow> False"
    by (simp add: extract_lat_lon_def Let_def split: option.splits)
  then show ?thesis
    by (auto simp: inject_lat_lon_def split: option.splits prod.splits)
qed

theorem extract_lat_lon_in_range_witness:
  "extract_lat_lon id (lit ''18.5, 73.8'') = (Some (37 / 2), Some (369 / 5))
   \<and> extract_lat_lon id (lit ''-91,5'') = (None, None)"
proof -
  have a: "extract_lat_lon id (lit ''18.5, 73.8'') = (Some (37 / 2), Some (369 / 5))"
    by (simp add: extract_lat_lon_def re_simps LATLON_RE_def number_re_def group_def
          decimal_value_def unsigned_value_def isdecimal_def digit_value_def decimal_blocks_def
          pystr_simps Let_def)
  have b: "extract_lat_lon id (lit ''-91,5'') = (None, None)"
    by (simp add: extract_lat_lon_def re_simps LATLON_RE_def number_re_def group_def
          decimal_value_def unsigned_value_def isdecimal_def digit_value_def decimal_blocks_def
          pystr_simps Let_def)
  from extract_lat_lon_in_range [of id "lit ''18.5, 73.8''" empty_context] a b show ?thesis by simp
qed

section \<open>Properties of the staleness checks\<close>

lemma older_than_cases:
  "older_than now fetched max_age =
     (case fetched of
        NotIso \<Rightarrow> Inr True
      | Iso (Aware t) \<Rightarrow> Inr (now - t > max_age)
      | Iso (Naive t) \<Rightarrow> Inl TypeError)"
  by (simp add: older_than_def parse_iso_dt_def since_def split: isotext.splits datetime.splits)

text \<open>
  On a snapshot that is absent, whose timestamp does not parse, or whose timestamp
  carries a UTC offset, each check returns: true in the first two cases and
  \<open>now - fetched > threshold\<close> in the third, so an age equal to the threshold is not
  stale.
\<close>

lemma staleness_aware:
  "weather st = None \<Longrightarrow> is_weather_stale now st = Inr True"
  "weather st = Some w \<Longrightarrow> weather_fetched_at_utc w = NotIso \<Longrightarrow> is_weather_stale now st = Inr True"
  "weather st = Some w \<Longrightarrow> weather_fetched_at_utc w = Iso (Aware t)
     \<Longrightarrow> is_weather_stale now st = Inr (now - t > hours 6)"
  "web st = None \<Longrightarrow> is_web_stale now st = Inr True"
  "web st = Some wb \<Longrightarrow> web_fetched_at_utc wb = NotIso \<Longrightarrow> is_web_stale now st = Inr True"
  "web st = Some wb \<Longrightarrow> web_fetched_at_utc wb = Iso (Aware t)
     \<Longrightarrow> is_web_stale now st = Inr (now - t > hours 24)"
  "schemes st = None \<Longrightarrow> is_schemes_stale now st = Inr True"
  "schemes st = Some sc \<Longrightarrow> schemes_fetched_at_utc sc = NotIso \<Longrightarrow> is_schemes_stale now st = Inr True"
  "schemes st = Some sc \<Longrightarrow> schemes_fetched_at_utc sc = Iso (Aware t)
     \<Longrightarrow> is_schemes_stale now st = Inr (now - t > days 7)"
  "market st = None \<Longrightarrow> is_market_stale now st = Inr True"
  "market st = Some mk \<Longrightarrow> market_fetched_at_utc mk = NotIso \<Longrightarrow> is_market_stale now st = Inr True"
  "market st = Some mk \<Longrightarrow> market_fetched_at_utc mk = Iso (Aware t)
     \<Longrightarrow> is_market_stale now st = Inr (now - t > hours 12)"
  by (simp_all add: is_weather_stale_def is_web_stale_def is_schemes_stale_def
        is_market_stale_def older_than_cases)

lemma staleness_boundary:
  "weather st = Some w \<Longrightarrow> weather_fetched_at_utc w = Iso (Aware (now - hours 6))
     \<Longrightarrow> is_weather_stale now st = Inr False"
  by (simp add: staleness_aware)

text \<open>
  Claim C4 asks that the check returns for every snapshot. A timestamp without a UTC
  offset (\<open>2024-01-01T00:00:00\<close>) parses to a naive datetime, and subtracting it from
  the aware \<open>_utc_now()\<close> raises \<open>TypeError\<close>: the check returns nothing.
\<close>

theorem staleness_naive_timestamp:
  "is_weather_stale 1704070800000000 (empty_state\<lparr>weather := Some naive_snapshot\<rparr>) = Inl TypeError"
  by (simp add: is_weather_stale_def older_than_cases naive_snapshot_def)

section \<open>Properties of the routing decision\<close>

lemma last_user_of_rev:
  "last_user_of (rev ms) =
     (case filter (\<lambda>m. role m = lit ''user'') ms of [] \<Rightarrow> [] | fs \<Rightarrow> strip (content (last fs)))"
  by (induction ms rule: rev_induct) (auto split: list.splits)

lemma last_user_text_recent:
  "most_recent_user_message st = Some m \<Longrightarrow> last_user_text st = strip (content m)"
  by (auto simp: most_recent_user_message_def last_user_text_def last_user_of_rev split: list.splits)

lemma strip_markers:
  "strip ACTION_BUY = ACTION_BUY" "strip ACTION_CROP_RECO = ACTION_CROP_RECO"
  "strip ACTION_DIGEST = ACTION_DIGEST" "strip ACTION_SCHEMES = ACTION_SCHEMES"
  "strip ACTION_MARKET = ACTION_MARKET"
  by (simp_all add: ACTION_BUY_def ACTION_CROP_RECO_def ACTION_DIGEST_def ACTION_SCHEMES_def
        ACTION_MARKET_def pystr_simps)

lemma markers_distinct:
  "ACTION_CROP_RECO \<noteq> ACTION_BUY" "ACTION_CROP_RECO \<noteq> ACTION_DIGEST"
  "ACTION_DIGEST \<noteq> ACTION_BUY" "ACTION_SCHEMES \<noteq> ACTION_BUY" "ACTION_MARKET \<noteq> ACTION_BUY"
  "ACTION_SCHEMES \<noteq> ACTION_CROP_RECO" "ACTION_MARKET \<noteq> ACTION_CROP_RECO"
  "ACTION_SCHEMES \<noteq> ACTION_DIGEST" "ACTION_MARKET \<noteq> ACTION_DIGEST"
  "ACTION_SCHEMES \<noteq> ACTION_MARKET"
  by (simp_all add: ACTION_BUY_def ACTION_CROP_RECO_def ACTION_DIGEST_def ACTION_SCHEMES_def
        ACTION_MARKET_def lit_def)

lemma markers_not_stage:
  "\<not> is_stage_update_message ACTION_CROP_RECO" "\<not> is_stage_update_message ACTION_DIGEST"
  "\<not> is_stage_update_message ACTION_SCHEMES" "\<not> is_stage_update_message ACTION_MARKET"
  by (simp_all add: is_stage_update_message_def extract_stage_from_text_def re_simps
        STAGE_UPDATE_RE_def STAGE_INLINE_RE_def
        ACTION_CROP_RECO_def ACTION_DIGEST_def ACTION_SCHEMES_def ACTION_MARKET_def
        lit_def isspace_def)

text \<open>
  Claim C6. For every session state whose most recent user-authored message is the buy
  marker, and for every clock reading, the routing decision returns \<open>buy\<close>, whatever
  else the state holds.
\<close>

theorem route_buy:
  assumes "most_recent_user_message st = Some m" and "content m = ACTION_BUY"
  shows "route now st = Inr (lit ''buy'')"
proof -
  from assms have "last_user_text st = ACTION_BUY"
    by (simp add: last_user_text_recent strip_markers)
  then show ?thesis by (simp add: route_def)
qed

theorem route_buy_witness:
  "most_recent_user_message (add_user ACTION_BUY (empty_state\<lparr>last_image := Some photo\<rparr>))
     = Some \<lparr>role = lit ''user'', content = ACTION_BUY\<rparr>
   \<and> needs_profile_questions (add_user ACTION_BUY (empty_state\<lparr>last_image := Some photo\<rparr>))
   \<and> route 0 (add_user ACTION_BUY (empty_state\<lparr>last_image := Some photo\<rparr>)) = Inr (lit ''buy'')"
proof -
  let ?s = "add_user ACTION_BUY (empty_state\<lparr>last_image := Some photo\<rparr>)"
  have m: "most_recent_user_message ?s = Some \<lparr>role = lit ''user'', content = ACTION_BUY\<rparr>"
    by (simp add: most_recent_user_message_def add_user_def empty_state_def)
  have p: "needs_profile_questions ?s"
    by (simp add: needs_profile_questions_def add_user_def empty_state_def empty_context_def
          truthy_str_def)
  from route_buy [OF m, of 0] m p show ?thesis by simp
qed

text \<open>
  \<open>_has_location\<close> tests the truth value of the coordinates (\<open>c.lat and c.lon\<close>), so a
  location is known when latitude and longitude are both set and both different from
  zero, or when the location text is not blank.
\<close>

lemma has_location_iff:
  "has_location st \<longleftrightarrow>
     (\<exists>la lo. lat (ctxt st) = Some la \<and> lon (ctxt st) = Some lo \<and> la \<noteq> 0 \<and> lo \<noteq> 0)
     \<or> (\<exists>t. location_text (ctxt st) = Some t \<and> strip t \<noteq> [])"
  by (auto simp: has_location_def has_latlon_def has_location_text_def truthy_float_def
        truthy_str_def strip_def lstrip_def rstrip_def split: option.splits)

text \<open>
  Claim C2, as the code has it. For every session state whose most recent user-authored
  message is the crop-recommendation marker and in which a location is known (latitude
  and longitude both set and both non-zero, or a non-blank location text), the routing
  decision returns \<open>crop_reco\<close>, whether or not a crop is set.
\<close>

theorem route_crop_reco_with_location:
  assumes "most_recent_user_message st = Some m" and "content m = ACTION_CROP_RECO"
    and "has_location st"
  shows "route now st = Inr (lit ''crop_reco'')"
proof -
  from assms have "last_user_text st = ACTION_CROP_RECO"
    by (simp add: last_user_text_recent strip_markers)
  with assms(3) show ?thesis by (simp add: route_def markers_distinct)
qed

theorem route_crop_reco_with_location_witness:
  "most_recent_user_message (add_user ACTION_CROP_RECO (empty_state\<lparr>ctxt := ctx_ramesh\<rparr>))
     = Some \<lparr>role = lit ''user'', content = ACTION_CROP_RECO\<rparr>
   \<and> has_location (add_user ACTION_CROP_RECO (empty_state\<lparr>ctxt := ctx_ramesh\<rparr>))
   \<and> route 0 (add_user ACTION_CROP_RECO (empty_state\<lparr>ctxt := ctx_ramesh\<rparr>))
       = Inr (lit ''crop_reco'')"
proof -
  let ?s = "add_user ACTION_CROP_RECO (empty_state\<lparr>ctxt := ctx_ramesh\<rparr>)"
  have m: "most_recent_user_message ?s = Some \<lparr>role = lit ''user'', content = ACTION_CROP_RECO\<rparr>"
    by (simp add: most_recent_user_message_def add_user_def empty_state_def)
  have h: "has_location ?s"
    by (simp add: has_location_def has_location_text_def add_user_def empty_state_def
          ctx_ramesh_def truthy_str_def pystr_simps)
  from route_crop_reco_with_location [OF m _ h, of 0] m h show ?thesis by simp
qed

text \<open>
  Claim C2 as stated fails: in a fresh session with no location the marker alone routes
  to \<open>ask\<close>.
\<close>

theorem route_crop_reco_counterexample:
  "most_recent_user_message (add_user ACTION_CROP_RECO empty_state)
     = Some \<lparr>role = lit ''user'', content = ACTION_CROP_RECO\<rparr>
   \<and> route 0 (add_user ACTION_CROP_RECO empty_state) = Inr (lit ''ask'')"
proof -
  let ?s = "add_user ACTION_CROP_RECO empty_state"
  have m: "most_recent_user_message ?s = Some \<lparr>role = lit ''user'', content = ACTION_CROP_RECO\<rparr>"
    by (simp add: most_recent_user_message_def add_user_def empty_state_def)
  then have l: "last_user_text ?s = ACTION_CROP_RECO"
    by (simp add: last_user_text_recent strip_markers)
  have n: "\<not> has_location ?s" "needs_profile_questions ?s" "last_image ?s = None"
    by (simp_all add: has_location_def has_latlon_def has_location_text_def
          needs_profile_questions_def add_user_def empty_state_def empty_context_def
          truthy_str_def truthy_float_def)
  from l n have "route 0 ?s = Inr (lit ''ask'')"
    by (simp add: route_def markers_distinct markers_not_stage)
  with m show ?thesis by simp
qed

text \<open>
  Coordinates on the equator or on the prime meridian do not count as a location: with
  latitude 0.0, longitude 73.75 and no location text the marker routes to \<open>ask\<close> as
  well.
\<close>

lemma route_crop_reco_zero_latitude:
  "route 0 (add_user ACTION_CROP_RECO
              (empty_state\<lparr>ctxt := empty_context\<lparr>lat := Some 0, lon := Some (295 / 4)\<rparr>\<rparr>))
     = Inr (lit ''ask'')"
proof -
  let ?s = "add_user ACTION_CROP_RECO
              (empty_state\<lparr>ctxt := empty_context\<lparr>lat := Some 0, lon := Some (295 / 4)\<rparr>\<rparr>)"
  have "most_recent_user_message ?s = Some \<lparr>role = lit ''user'', content = ACTION_CROP_RECO\<rparr>"
    by (simp add: most_recent_user_message_def add_user_def empty_state_def)
  then have l: "last_user_text ?s = ACTION_CROP_RECO"
    by (simp add: last_user_text_recent strip_markers)
  have n: "\<not> has_location ?s" "needs_profile_questions ?s" "last_image ?s = None"
    by (simp_all add: has_location_def has_latlon_def has_location_text_def
          needs_profile_questions_def add_user_def empty_state_def empty_context_def
          truthy_str_def truthy_float_def)
  from l n show ?thesis
    by (simp add: route_def markers_distinct markers_not_stage)
qed

section \<open>Properties of the routing loop\<close>

lemma node_names:
  "lit ''vision'' \<notin> set terminal_nodes" "lit ''weather'' \<notin> set terminal_nodes"
  "lit ''web'' \<notin> set terminal_nodes" "lit ''schemes'' \<notin> set terminal_nodes"
  "lit ''market'' \<notin> set terminal_nodes"
  "lit ''buy'' \<in> set terminal_nodes" "lit ''crop_reco'' \<in> set terminal_nodes"
  "lit ''ask'' \<in> set terminal_nodes" "lit ''advice'' \<in> set terminal_nodes"
  by (simp_all add: terminal_nodes_def lit_def)

lemma refresh_distinct:
  "lit ''vision'' \<noteq> lit ''weather''" "lit ''vision'' \<noteq> lit ''web''"
  "lit ''vision'' \<noteq> lit ''schemes''" "lit ''vision'' \<noteq> lit ''market''"
  "lit ''weather'' \<noteq> lit ''web''" "lit ''weather'' \<noteq> lit ''schemes''"
  "lit ''weather'' \<noteq> lit ''market''" "lit ''web'' \<noteq> lit ''schemes''"
  "lit ''web'' \<noteq> lit ''market''" "lit ''schemes'' \<noteq> lit ''market''"
  by (simp_all add: lit_def)




lemma image_pending_cong:
  "last_image s' = last_image s \<Longrightarrow> image_diagnosis s' = image_diagnosis s
     \<Longrightarrow> image_pending s' = image_pending s"
  by (simp add: image_pending_def)

lemma weather_due_cong:
  "ctxt s' = ctxt s \<Longrightarrow> weather s' = weather s \<Longrightarrow> weather_due t s' = weather_due t s"
  by (simp add: weather_due_def is_weather_stale_def)

lemma web_due_cong:
  "messages s' = messages s \<Longrightarrow> observation s' = observation s \<Longrightarrow> web s' = web s
     \<Longrightarrow> web_due t s' = web_due t s"
  by (simp add: web_due_def is_web_stale_def last_user_text_def)

lemma schemes_due_cong:
  "messages s' = messages s \<Longrightarrow> schemes s' = schemes s \<Longrightarrow> schemes_due t s' = schemes_due t s"
  by (simp add: schemes_due_def is_schemes_stale_def wants_schemes_def last_user_text_def)

lemma market_due_cong:
  "messages s' = messages s \<Longrightarrow> market s' = market s \<Longrightarrow> market_due t s' = market_due t s"
  by (simp add: market_due_def is_market_stale_def wants_market_def last_user_text_def)



















lemma plan_node_idem: "plan_node (plan_node s) = plan_node s"
  by (simp add: plan_node_def)






lemma hello_not_stage: "\<not> is_stage_update_message (lit ''hello'')"
  by (simp add: is_stage_update_message_def extract_stage_from_text_def re_match_def
        seqs_def Plus_def Opt_def text_ci_def ichar_def az_underscore_ci_def
        STAGE_UPDATE_RE_def STAGE_INLINE_RE_def lit_def isspace_def)


lemma hello_not_marker:
  "lit ''hello'' \<noteq> ACTION_BUY" "lit ''hello'' \<noteq> ACTION_CROP_RECO" "lit ''hello'' \<noteq> ACTION_DIGEST"
  by (simp_all add: ACTION_BUY_def ACTION_CROP_RECO_def ACTION_DIGEST_def lit_def)

lemma located_profile:
  "truthy_str (crop ctx_located)" "has_latlon ctx_located" "truthy_str (farmer_name ctx_located)"
  "stage ctx_located \<noteq> lit ''unknown''" "land_size ctx_located \<noteq> None"
  "truthy_str (location_text ctx_located)"
  by (simp_all add: ctx_located_def ctx_ramesh_def truthy_str_def truthy_float_def has_latlon_def
        lit_def)






lemma digest_text: "last_user_text (s\<lparr>messages := messages state_digest\<rparr>) = ACTION_DIGEST"
  by (simp add: last_user_text_def state_digest_def add_user_def empty_state_def strip_markers)





text \<open>
  The loop runs on at every number of iterations (\<open>weather_loop\<close>). The same happens
  with every provider up when the digest is requested for a profile that has
  coordinates but no location text: \<open>schemes_node\<close> returns without a search.
\<close>

lemma schemes_loop_without_location_text:
  "fst (run_plan all_up 8 0 state_gps)
     = [lit ''weather'', lit ''web''] @ replicate 6 (lit ''schemes'')
   \<and> still_running (snd (run_plan all_up 8 0 state_gps))"
proof -
  have t: "\<And>s. messages s = messages state_digest \<Longrightarrow> last_user_text s = ACTION_DIGEST"
    using digest_text by (metis GraphState.surjective GraphState.update_convs(4))
  have eight: "(8::nat) = Suc (Suc (Suc (Suc (Suc (Suc (Suc (Suc 0)))))))" by simp
  have six: "(6::nat) = Suc (Suc (Suc (Suc (Suc (Suc 0)))))" by simp
  have p: "has_latlon (ctx_located\<lparr>location_text := None\<rparr>)"
    "\<not> truthy_str (location_text (ctx_located\<lparr>location_text := None\<rparr>))"
    using located_profile by (simp_all add: has_latlon_def truthy_str_def)
  show ?thesis
    unfolding eight six
    using p
    by (simp add: route_def t markers_distinct markers_distinct [symmetric] markers_not_stage
          plan_node_def exec_node_def weather_node_def web_node_def schemes_node_def
          market_node_def all_up_def state_gps_def state_digest_def add_user_def empty_state_def
          needs_profile_questions_def return_if_def and_then_def or_else_def
          is_weather_stale_def is_web_stale_def is_schemes_stale_def is_market_stale_def
          older_than_cases fresh_weather_def fresh_web_def as_schemes_def as_market_def
          wants_schemes_def wants_market_def node_names refresh_distinct
          refresh_distinct [symmetric] hours_def days_def has_location_def Let_def
          still_running_def)
qed

section \<open>Properties of the message log\<close>

text \<open>
  Compaction keeps the last 16 entries in their order. The user append of \<open>run_turn\<close>,
  the reply of \<open>ask_node\<close>, and the replies of \<open>advice_node\<close> and \<open>crop_reco_node\<close>
  when an advisory was parsed, are each followed by compaction.
\<close>

lemma last_n_length: "length (last_n k xs) \<le> k"
  by (simp add: last_n_def)

lemma last_n_suffix: "suffix (last_n k xs) xs"
  by (simp add: last_n_def suffix_drop)

lemma compact_messages_length: "length (messages (compact_messages s)) \<le> 16"
  by (simp add: compact_messages_def last_n_length)

lemma compact_messages_suffix: "suffix (messages (compact_messages s)) (messages s)"
  by (simp add: compact_messages_def last_n_suffix)

lemma compact_messages_short:
  "length (messages s) \<le> 16 \<Longrightarrow> compact_messages s = s"
  by (simp add: compact_messages_def)

lemma turn_start_log:
  "length (messages (turn_start text s)) \<le> 16"
  "suffix (messages (turn_start text s)) (messages s @ [\<lparr>role = lit ''user'', content = text\<rparr>])"
  using compact_messages_suffix [of "(add_user text s)\<lparr>turn_count := turn_count s + 1\<rparr>"]
  by (simp_all add: turn_start_def compact_messages_length add_user_def)

lemma ask_node_log:
  "length (messages (ask_node s)) \<le> 16"
  "\<exists>msg. suffix (messages (ask_node s)) (messages s @ [\<lparr>role = lit ''assistant'', content = msg\<rparr>])"
proof -
  show "length (messages (ask_node s)) \<le> 16"
    by (simp add: ask_node_def Let_def compact_messages_length)
  define msg where "msg = (let c = ctxt s; lang = language c in
                 if \<not> truthy_str (farmer_name c) then ask_name lang
                 else if \<not> has_latlon c \<and> \<not> has_location_text c then ask_location lang
                 else if \<not> truthy_str (crop c) then ask_crop lang
                 else if stage c = lit ''unknown'' then ask_stage lang
                 else if land_size c = None then ask_land lang
                 else ask_symptoms lang)"
  have eq: "messages (ask_node s)
      = messages (compact_messages (add_assistant msg (s\<lparr>last_node := Some (lit ''ask'')\<rparr>)))"
    by (simp add: ask_node_def msg_def Let_def)
  have m: "messages (add_assistant msg (s\<lparr>last_node := Some (lit ''ask'')\<rparr>))
      = messages s @ [\<lparr>role = lit ''assistant'', content = msg\<rparr>]"
    by (simp add: add_assistant_def)
  have "suffix (messages (ask_node s)) (messages s @ [\<lparr>role = lit ''assistant'', content = msg\<rparr>])"
    using compact_messages_suffix [of "add_assistant msg (s\<lparr>last_node := Some (lit ''ask'')\<rparr>)"]
    unfolding eq m .
  then show "\<exists>msg. suffix (messages (ask_node s))
      (messages s @ [\<lparr>role = lit ''assistant'', content = msg\<rparr>])" ..
qed

lemma advice_node_parsed_log:
  "parsed_advisory e i = Some adv \<Longrightarrow> length (messages (advice_node e i s)) \<le> 16"
  by (simp add: advice_node_def Let_def compact_messages_length)

lemma advice_node_fallback_log:
  "parsed_advisory e i = None \<Longrightarrow> length (messages (advice_node e i s)) = length (messages s) + 1"
  by (simp add: advice_node_def Let_def add_assistant_def)

lemma crop_reco_node_fallback_log:
  "parsed_advisory e i = None \<Longrightarrow> crop_reco_node e i s = Inr s'
     \<Longrightarrow> length (messages s') = length (messages s) + 1"
  by (auto simp: crop_reco_node_def Let_def add_assistant_def split: sum.splits)

lemma crop_reco_node_parsed_log:
  "parsed_advisory e i = Some adv \<Longrightarrow> crop_reco_node e i s = Inr s'
     \<Longrightarrow> length (messages s') \<le> 16"
  by (auto simp: crop_reco_node_def Let_def compact_messages_length split: sum.splits)

lemma long_start:
  "turn_start (lit ''hello'') state_long
     = state_long\<lparr>turn_count := 1,
         messages := replicate 7 \<lparr>role = lit ''user'', content = lit ''hello''\<rparr>
                   @ replicate 8 \<lparr>role = lit ''assistant'', content = lit ''Advisory update''\<rparr>
                   @ [\<lparr>role = lit ''user'', content = lit ''hello''\<rparr>]\<rparr>"
  by (simp add: turn_start_def compact_messages_def add_user_def state_long_def empty_state_def
        last_n_def eval_nat_numeral)

lemma hello_latlon: "extract_lat_lon id (lit ''hello'') = (None, None)"
  by (simp add: extract_lat_lon_def re_simps LATLON_RE_def number_re_def isdecimal_def
        digit_value_def decimal_blocks_def pystr_simps Let_def)

lemma hello_intake:
  assumes "last_user_text s = lit ''hello''"
  shows "intake_node id None s = Inr (s\<lparr>last_node := Some (lit ''intake'')\<rparr>)"
proof -
  have l: "last_user_text (s\<lparr>last_node := Some (lit ''intake'')\<rparr>) = lit ''hello''"
    using assms by (simp add: last_user_text_def)
  have a: "\<not> is_action_message (lit ''hello'')"
    by (simp add: is_action_message_def ACTION_PREFIX_def lit_def)
  have st: "extract_stage_from_text (lit ''hello'') = None"
    using hello_not_stage by (simp add: is_stage_update_message_def)
  show ?thesis
    by (simp add: intake_node_def Let_def l a st inject_lat_lon_def hello_latlon)
qed

lemma long_text: "last_user_text (turn_start (lit ''hello'') state_long) = lit ''hello''"
  unfolding long_start by (simp add: last_user_text_def pystr_simps)

text \<open>
  Claim C8 asks for at most 16 entries after every append of an assistant reply. The
  \<open>except\<close> branches of \<open>advice_node\<close> and \<open>crop_reco_node\<close> append the fallback reply
  and return without compacting (\<open>advice_node_fallback_log\<close>,
  \<open>crop_reco_node_fallback_log\<close>). Here a session with 16 logged messages receives
  "hello" while the model call fails: the log has 16 entries after the user append, the
  turn runs weather and then advice, and the state returned by \<open>advice_node\<close> has 17.
\<close>

theorem fallback_reply_exceeds_cap:
  "length (messages (turn_start (lit ''hello'') state_long)) = 16
   \<and> (case intake_node id None (turn_start (lit ''hello'') state_long) of
         Inl err \<Rightarrow> False
       | Inr s0 \<Rightarrow>
           (case run_plan model_down 6 0 s0 of
              (tr, Reached node s) \<Rightarrow>
                tr = [lit ''weather''] \<and> node = lit ''advice''
                \<and> length (messages s) = 16
                \<and> length (messages (advice_node model_down (length tr) s)) = 17
            | _ \<Rightarrow> False))"
proof -
  let ?s = "turn_start (lit ''hello'') state_long"
  have len: "length (messages ?s) = 16" unfolding long_start by simp
  have t: "\<And>s. messages s = messages ?s \<Longrightarrow> last_user_text s = lit ''hello''"
    using long_text by (simp add: last_user_text_def)
  have f: "ctxt ?s = ctx_located" "last_image ?s = None" "image_diagnosis ?s = None"
    "weather ?s = None" "web ?s = None" "schemes ?s = None" "market ?s = None"
    "observation ?s = \<lparr>symptoms = [], pests_seen = [], urgency = lit ''low''\<rparr>"
    unfolding long_start by (simp_all add: state_long_def empty_state_def)
  have adv: "\<And>i. parsed_advisory model_down i = None"
    by (simp add: parsed_advisory_def model_down_def all_up_def)
  have six: "(6::nat) = Suc (Suc (Suc (Suc (Suc (Suc 0)))))" by simp
  have hm: "lit ''hello'' \<noteq> ACTION_SCHEMES" "lit ''hello'' \<noteq> ACTION_MARKET"
    by (simp_all add: ACTION_SCHEMES_def ACTION_MARKET_def lit_def)
  have run: "run_plan model_down 6 0 (?s\<lparr>last_node := Some (lit ''intake'')\<rparr>)
      = ([lit ''weather''],
         Reached (lit ''advice'') (?s\<lparr>last_node := Some (lit ''plan''), weather := Some fresh_weather\<rparr>))"
    unfolding six
    using located_profile
    by (simp add: route_def t f hello_not_marker hello_not_stage hm
          plan_node_def exec_node_def weather_node_def model_down_def all_up_def
          needs_profile_questions_def return_if_def and_then_def or_else_def
          is_weather_stale_def is_web_stale_def is_schemes_stale_def is_market_stale_def
          older_than_cases fresh_weather_def
          wants_schemes_def wants_market_def node_names refresh_distinct
          refresh_distinct [symmetric] hours_def has_location_def Let_def)
  show ?thesis
    by (simp add: hello_intake [OF long_text] run len adv advice_node_fallback_log)
qed

section \<open>Properties of \<open>run_turn\<close> on the store\<close>

lemma alloc_simps:
  "cells (fst (alloc c h)) = (cells h)(next_free h \<mapsto> c)"
  "next_free (fst (alloc c h)) = Suc (next_free h)"
  "snd (alloc c h) = next_free h"
  by (simp_all add: alloc_def)

lemma wf_alloc: "wf_store h \<Longrightarrow> wf_store (fst (alloc c h))"
  by (auto simp: wf_store_def alloc_def less_Suc_eq)

lemma wf_fresh: "wf_store h \<Longrightarrow> cells h (next_free h) = None"
  by (auto simp: wf_store_def)

lemma wf_below: "wf_store h \<Longrightarrow> cells h a = Some c \<Longrightarrow> a < next_free h"
  by (auto simp: wf_store_def)

lemma state_atD:
  "state_at h a = Some (f, m, ms) \<Longrightarrow> cells h a = Some (StateObj f m) \<and> cells h m = Some (ListObj ms)"
  by (auto simp: state_at_def split: option.splits cell.splits)

lemma state_atI:
  "cells h a = Some (StateObj f m) \<Longrightarrow> cells h m = Some (ListObj ms) \<Longrightarrow> state_at h a = Some (f, m, ms)"
  by (simp add: state_at_def)

lemma apartD:
  assumes "apart h s h'"
  shows "\<exists>f m ms. state_at h' s = Some (f, m, ms) \<and> next_free h \<le> m \<and> next_free h \<le> s
    \<and> wf_store h' \<and> next_free h \<le> next_free h'
    \<and> (\<forall>x. x < next_free h \<longrightarrow> cells h' x = cells h x)
    \<and> s < next_free h' \<and> m < next_free h' \<and> cells h' s = Some (StateObj f m)
    \<and> cells h' m = Some (ListObj ms)"
proof -
  from assms obtain f m ms where st: "state_at h' s = Some (f, m, ms)" and m: "next_free h \<le> m"
    by (auto simp: apart_def split: option.splits)
  from state_atD [OF st] have c: "cells h' s = Some (StateObj f m)" "cells h' m = Some (ListObj ms)"
    by simp_all
  from assms have w: "wf_store h'" by (simp add: apart_def)
  from wf_below [OF w c(1)] wf_below [OF w c(2)] have "s < next_free h'" "m < next_free h'" .
  with st m assms c w show ?thesis by (simp add: apart_def)
qed

lemma read_stateI:
  "state_at h a = Some (f, m, ms) \<Longrightarrow> read_state h a = Some (f\<lparr>messages := ms\<rparr>)"
  by (simp add: read_state_def)

lemma copy_apart:
  assumes "wf_store h" and "state_at h a = Some (f, m, ms)"
  shows "\<exists>h1 s. model_copy_deep h a = Some (h1, s) \<and> apart h s h1
           \<and> read_state h1 s = read_state h a"
proof -
  let ?n = "next_free h"
  let ?h1 = "h\<lparr>cells := (cells h)(?n \<mapsto> ListObj ms, Suc ?n \<mapsto> StateObj f ?n),
                next_free := Suc (Suc ?n)\<rparr>"
  have c: "model_copy_deep h a = Some (?h1, Suc ?n)"
    using assms(2) by (simp add: model_copy_deep_def alloc_def)
  have w: "wf_store ?h1" using assms(1) by (auto simp: wf_store_def less_Suc_eq)
  have s: "state_at ?h1 (Suc ?n) = Some (f, ?n, ms)" by (simp add: state_at_def)
  have "apart h (Suc ?n) ?h1" using w s by (simp add: apart_def)
  moreover have "read_state ?h1 (Suc ?n) = read_state h a"
    unfolding read_stateI [OF s] read_stateI [OF assms(2)] ..
  ultimately show ?thesis using c by blast
qed

lemma add_user_apart:
  assumes "apart h s h1" and "read_state h1 s = Some v"
  shows "\<exists>h2. add_user_at text h1 s = Some h2 \<and> apart h s h2
           \<and> read_state h2 s = Some (add_user text v)"
proof -
  from apartD [OF assms(1)] obtain f m ms where
    st: "state_at h1 s = Some (f, m, ms)" and m: "next_free h \<le> m" and s: "next_free h \<le> s"
    and w: "wf_store h1" and n: "next_free h \<le> next_free h1"
    and b: "\<forall>x. x < next_free h \<longrightarrow> cells h1 x = cells h x"
    and sl: "s < next_free h1" and ml: "m < next_free h1"
    and cs: "cells h1 s = Some (StateObj f m)" and cm: "cells h1 m = Some (ListObj ms)"
    by (elim exE conjE) (rule that, assumption+)
  let ?ms = "ms @ [\<lparr>role = lit ''user'', content = text\<rparr>]"
  let ?h2 = "h1\<lparr>cells := (cells h1)(m \<mapsto> ListObj ?ms)\<rparr>"
  have a: "add_user_at text h1 s = Some ?h2" using st by (simp add: add_user_at_def)
  have ne: "s \<noteq> m" using cs cm by auto
  have st2: "state_at ?h2 s = Some (f, m, ?ms)" using cs ne by (simp add: state_at_def)
  have w2: "wf_store ?h2" using w cm by (auto simp: wf_store_def)
  have ap: "apart h s ?h2" using w2 st2 m s n b by (auto simp: apart_def)
  from assms(2) read_stateI [OF st] have v: "v = f\<lparr>messages := ms\<rparr>" by simp
  have "read_state ?h2 s = Some (add_user text v)"
    unfolding read_stateI [OF st2] v by (simp add: add_user_def)
  with a ap show ?thesis by blast
qed

lemma incr_apart:
  assumes "apart h s h1" and "read_state h1 s = Some v"
  shows "\<exists>h2. incr_turn_count_at h1 s = Some h2 \<and> apart h s h2
           \<and> read_state h2 s = Some (v\<lparr>turn_count := turn_count v + 1\<rparr>)"
proof -
  from apartD [OF assms(1)] obtain f m ms where
    st: "state_at h1 s = Some (f, m, ms)" and m: "next_free h \<le> m" and s: "next_free h \<le> s"
    and w: "wf_store h1" and n: "next_free h \<le> next_free h1"
    and b: "\<forall>x. x < next_free h \<longrightarrow> cells h1 x = cells h x"
    and sl: "s < next_free h1" and ml: "m < next_free h1"
    and cs: "cells h1 s = Some (StateObj f m)" and cm: "cells h1 m = Some (ListObj ms)"
    by (elim exE conjE) (rule that, assumption+)
  let ?h2 = "h1\<lparr>cells := (cells h1)(s \<mapsto> StateObj (f\<lparr>turn_count := turn_count f + 1\<rparr>) m)\<rparr>"
  have a: "incr_turn_count_at h1 s = Some ?h2" using st by (simp add: incr_turn_count_at_def)
  have ne: "s \<noteq> m" using cs cm by auto
  have st2: "state_at ?h2 s = Some (f\<lparr>turn_count := turn_count f + 1\<rparr>, m, ms)"
    using cm ne by (simp add: state_at_def)
  have w2: "wf_store ?h2" using w cs by (auto simp: wf_store_def)
  have ap: "apart h s ?h2" using w2 st2 m s n b by (auto simp: apart_def)
  from assms(2) read_stateI [OF st] have v: "v = f\<lparr>messages := ms\<rparr>" by simp
  have "read_state ?h2 s = Some (v\<lparr>turn_count := turn_count v + 1\<rparr>)"
    unfolding read_stateI [OF st2] v by simp
  with a ap show ?thesis by blast
qed

lemma compact_apart:
  assumes "apart h s h1" and "read_state h1 s = Some v"
  shows "\<exists>h2. compact_messages_at h1 s = Some h2 \<and> apart h s h2
           \<and> read_state h2 s = Some (compact_messages v)"
proof -
  from apartD [OF assms(1)] obtain f m ms where
    st: "state_at h1 s = Some (f, m, ms)" and m: "next_free h \<le> m" and s: "next_free h \<le> s"
    and w: "wf_store h1" and n: "next_free h \<le> next_free h1"
    and b: "\<forall>x. x < next_free h \<longrightarrow> cells h1 x = cells h x"
    and sl: "s < next_free h1" and ml: "m < next_free h1"
    and cs: "cells h1 s = Some (StateObj f m)" and cm: "cells h1 m = Some (ListObj ms)"
    by (elim exE conjE) (rule that, assumption+)
  from assms(2) read_stateI [OF st] have v: "v = f\<lparr>messages := ms\<rparr>" by simp
  show ?thesis
  proof (cases "length ms > 16")
    case False
    with st have "compact_messages_at h1 s = Some h1" by (simp add: compact_messages_at_def)
    moreover from False have "compact_messages v = v" by (simp add: compact_messages_def v)
    ultimately show ?thesis using assms by simp
  next
    case True
    let ?k = "next_free h1"
    let ?h2 = "h1\<lparr>cells := (cells h1)(?k \<mapsto> ListObj (last_n 16 ms), s \<mapsto> StateObj f ?k),
                  next_free := Suc ?k\<rparr>"
    have a: "compact_messages_at h1 s = Some ?h2"
      using st True by (simp add: compact_messages_at_def alloc_def)
    have st2: "state_at ?h2 s = Some (f, ?k, last_n 16 ms)"
      using sl by (simp add: state_at_def)
    have w2: "wf_store ?h2" using w sl by (auto simp: wf_store_def less_Suc_eq)
    have ap: "apart h s ?h2" using w2 st2 s n b sl by (auto simp: apart_def)
    have "read_state ?h2 s = Some (compact_messages v)"
      unfolding read_stateI [OF st2] v using True by (simp add: compact_messages_def)
    with a ap show ?thesis by blast
  qed
qed

lemma state_at_same:
  assumes "wf_store h" and "state_at h a = Some (f, m, ms)"
    and "\<forall>x. x < next_free h \<longrightarrow> cells h' x = cells h x"
  shows "state_at h' a = Some (f, m, ms)"
proof -
  from state_atD [OF assms(2)] have c: "cells h a = Some (StateObj f m)" "cells h m = Some (ListObj ms)"
    by simp_all
  from wf_below [OF assms(1) c(1)] wf_below [OF assms(1) c(2)] assms(3) c
  show ?thesis by (simp add: state_at_def)
qed

lemma graph_frameD:
  assumes "graph_frame graph" and "wf_store h" and "state_at h s = Some (f, m, ms)"
    and "graph h s = (h', out)"
  shows "wf_store h'" and "next_free h \<le> next_free h'"
    and "\<forall>x. x < next_free h \<and> x \<noteq> s \<and> x \<noteq> m \<longrightarrow> cells h' x = cells h x"
    and "state_at h' s \<noteq> None"
    and "\<And>b. out = OutState b \<Longrightarrow>
           \<exists>f' m' ms'. state_at h' b = Some (f', m', ms')
             \<and> (b = s \<or> next_free h \<le> b) \<and> (m' = m \<or> next_free h \<le> m')"
proof -
  note g0 = assms(1) [unfolded graph_frame_def, rule_format]
  from g0 [OF conjI [OF assms(2) assms(3)]] assms(4) have g: "wf_store h' \<and> next_free h \<le> next_free h'
           \<and> (\<forall>x. x < next_free h \<and> x \<noteq> s \<and> x \<noteq> m \<longrightarrow> cells h' x = cells h x)
           \<and> state_at h' s \<noteq> None
           \<and> (case out of
                 OutState b \<Rightarrow>
                   (case state_at h' b of
                      None \<Rightarrow> False
                    | Some (f', m', ms') \<Rightarrow>
                        (b = s \<or> next_free h \<le> b) \<and> (m' = m \<or> next_free h \<le> m'))
               | _ \<Rightarrow> True)"
    by simp
  from g show "wf_store h'" by simp
  from g show "next_free h \<le> next_free h'" by simp
  from g show "\<forall>x. x < next_free h \<and> x \<noteq> s \<and> x \<noteq> m \<longrightarrow> cells h' x = cells h x" by simp
  from g show "state_at h' s \<noteq> None" by simp
  fix b assume "out = OutState b"
  with g show "\<exists>f' m' ms'. state_at h' b = Some (f', m', ms')
             \<and> (b = s \<or> next_free h \<le> b) \<and> (m' = m \<or> next_free h \<le> m')"
    by (auto split: option.splits)
qed

lemma new_state_facts:
  assumes "wf_store h5"
  shows "\<exists>h6 b. new_state v h5 = (h6, b) \<and> next_free h5 \<le> b
          \<and> state_at h6 b = Some (v, next_free h5, messages v)
          \<and> (\<forall>x. x < next_free h5 \<longrightarrow> cells h6 x = cells h5 x)"
  by (simp add: new_state_def alloc_def state_at_def)

lemma reply_graph_frame: "graph_frame reply_graph"
  unfolding graph_frame_def
proof (intro allI impI)
  fix h s f m ms
  assume a: "wf_store h \<and> state_at h s = Some (f, m, ms)"
  then have st: "state_at h s = Some (f, m, ms)" and w: "wf_store h" by simp_all
  from state_atD [OF st] have c: "cells h s = Some (StateObj f m)" "cells h m = Some (ListObj ms)"
    by simp_all
  then have ne: "s \<noteq> m" by auto
  let ?ms = "ms @ [\<lparr>role = lit ''assistant'', content = lit ''Advisory update''\<rparr>]"
  let ?h = "h\<lparr>cells := (cells h)(m \<mapsto> ListObj ?ms)\<rparr>"
  have r: "reply_graph h s = (?h, OutDict (\<lambda>v. v\<lparr>last_node := Some (lit ''advice'')\<rparr>))"
    using st by (simp add: reply_graph_def)
  have w': "wf_store ?h" using w c(2) by (auto simp: wf_store_def)
  have st': "state_at ?h s = Some (f, m, ?ms)" using c ne by (simp add: state_at_def)
  show "case reply_graph h s of
           (h', out) \<Rightarrow>
             wf_store h' \<and> next_free h \<le> next_free h'
           \<and> (\<forall>x. x < next_free h \<and> x \<noteq> s \<and> x \<noteq> m \<longrightarrow> cells h' x = cells h x)
           \<and> state_at h' s \<noteq> None
           \<and> (case out of
                 OutState b \<Rightarrow>
                   (case state_at h' b of
                      None \<Rightarrow> False
                    | Some (f', m', ms') \<Rightarrow>
                        (b = s \<or> next_free h \<le> b) \<and> (m' = m \<or> next_free h \<le> m'))
               | _ \<Rightarrow> True)"
    unfolding r using w' st' by simp
qed

lemma store0_ok:
  "wf_store store0"
  "state_at store0 0 = Some (state_long\<lparr>messages := []\<rparr>, 1, messages state_long)"
  "read_state store0 0 = Some state_long"
  by (simp_all add: wf_store_def store0_def state_at_def read_state_def)

text \<open>
  Claim C9. On every well-formed store, for every state object and user text, and for
  every graph that respects the objects it was not given, \<open>run_turn\<close> returns, and:

  \<^item> the graph is invoked on a state object \<open>s\<close> that did not exist before the call and
    that reads as the incoming state with the user message appended, the turn counter
    incremented and the log compacted (\<open>turn_start\<close>), in a store \<open>h4\<close> that has every
    earlier object unchanged;
  \<^item> what is returned is what the graph hands back: the state object it returns; for a
    dict, a new state object that reads as \<open>s\<close> after the graph ran, overwritten by the
    dict; \<open>ValueError\<close> for anything else; the exception of the graph;
  \<^item> every object of the store before the call is unchanged after it, so the incoming
    state reads exactly as before;
  \<^item> a returned state is an object that did not exist before the call, with a message
    list that did not exist before the call.
\<close>

theorem run_turn_leaves_input:
  assumes "wf_store h" and "state_at h state = Some (f, m, ms)" and "graph_frame graph"
  shows "\<exists>h4 s h5 out h' r.
       run_turn graph h state user_text = Some (h', r)
     \<and> next_free h \<le> s
     \<and> read_state h4 s = map_option (turn_start user_text) (read_state h state)
     \<and> (\<forall>x. x < next_free h \<longrightarrow> cells h4 x = cells h x)
     \<and> graph h4 s = (h5, out)
     \<and> (case out of
           OutState b \<Rightarrow> h' = h5 \<and> r = Inr b
         | OutDict upd \<Rightarrow>
             (case read_state h5 s of
                None \<Rightarrow> False
              | Some base \<Rightarrow>
                  (case r of
                     Inl err \<Rightarrow> False
                   | Inr b \<Rightarrow>
                       read_state h' b = Some (upd base)
                       \<and> (\<forall>x. x < next_free h5 \<longrightarrow> cells h' x = cells h5 x)))
         | OutOther \<Rightarrow> h' = h5 \<and> r = Inl ValueError
         | OutRaise err \<Rightarrow> h' = h5 \<and> r = Inl err)
     \<and> (\<forall>x. x < next_free h \<longrightarrow> cells h' x = cells h x)
     \<and> read_state h' state = read_state h state
     \<and> (case r of
           Inl err \<Rightarrow> True
         | Inr b \<Rightarrow>
             next_free h \<le> b
             \<and> (case state_at h' b of
                  None \<Rightarrow> False
                | Some (f', m', ms') \<Rightarrow> next_free h \<le> m'))"
proof -
  let ?v = "f\<lparr>messages := ms\<rparr>"
  have r0: "read_state h state = Some ?v" by (rule read_stateI [OF assms(2)])
  from copy_apart [OF assms(1,2)] r0 obtain h1 s where
    c1: "model_copy_deep h state = Some (h1, s)" and a1: "apart h s h1"
    and r1: "read_state h1 s = Some ?v" by auto
  from add_user_apart [OF a1 r1, of user_text] obtain h2 where
    c2: "add_user_at user_text h1 s = Some h2" and a2: "apart h s h2"
    and r2: "read_state h2 s = Some (add_user user_text ?v)" by blast
  from incr_apart [OF a2 r2] obtain h3 where
    c3: "incr_turn_count_at h2 s = Some h3" and a3: "apart h s h3"
    and r3: "read_state h3 s = Some ((add_user user_text ?v)
               \<lparr>turn_count := turn_count (add_user user_text ?v) + 1\<rparr>)" by blast
  from compact_apart [OF a3 r3] obtain h4 where
    c4: "compact_messages_at h3 s = Some h4" and a4: "apart h s h4"
    and r4: "read_state h4 s = Some (compact_messages ((add_user user_text ?v)
               \<lparr>turn_count := turn_count (add_user user_text ?v) + 1\<rparr>))" by blast
  have handed: "read_state h4 s = map_option (turn_start user_text) (read_state h state)"
    unfolding r4 r0 by (simp add: turn_start_def add_user_def)
  from apartD [OF a4] obtain f4 m4 ms4 where
    st4: "state_at h4 s = Some (f4, m4, ms4)" and m4: "next_free h \<le> m4"
    and s4: "next_free h \<le> s" and w4: "wf_store h4" and n4: "next_free h \<le> next_free h4"
    and b4: "\<forall>x. x < next_free h \<longrightarrow> cells h4 x = cells h x"
    by (elim exE conjE) (rule that, assumption+)
  obtain h5 out where g: "graph h4 s = (h5, out)" by (cases "graph h4 s")
  note fr = graph_frameD [OF assms(3) w4 st4 g]
  have b5: "\<forall>x. x < next_free h \<longrightarrow> cells h5 x = cells h x"
  proof (intro allI impI)
    fix x assume x: "x < next_free h"
    with n4 m4 s4 have "x < next_free h4 \<and> x \<noteq> s \<and> x \<noteq> m4" by auto
    with fr(3) have "cells h5 x = cells h4 x" by blast
    with b4 x show "cells h5 x = cells h x" by simp
  qed
  have keep: "\<And>h'. \<forall>x. x < next_free h \<longrightarrow> cells h' x = cells h x
      \<Longrightarrow> read_state h' state = read_state h state"
    using state_at_same [OF assms(1,2)] assms(2) by (simp add: read_state_def)
  show ?thesis
  proof (cases out)
    case (OutState b)
    from fr(5) [OF OutState] obtain f' m' ms' where
      "state_at h5 b = Some (f', m', ms')" "b = s \<or> next_free h4 \<le> b"
      "m' = m4 \<or> next_free h4 \<le> m'" by blast
    with s4 m4 n4 have new: "next_free h \<le> b"
      "case state_at h5 b of None \<Rightarrow> False | Some (f', m', ms') \<Rightarrow> next_free h \<le> m'"
      by auto
    have run: "run_turn graph h state user_text = Some (h5, Inr b)"
      by (simp add: run_turn_def c1 c2 c3 c4 g OutState)
    show ?thesis
      apply (rule exI [of _ h4], rule exI [of _ s], rule exI [of _ h5], rule exI [of _ out])
      apply (rule exI [of _ h5], rule exI [of _ "Inr b"])
      using run s4 handed b4 g OutState b5 keep [OF b5] new by simp
  next
    case (OutDict upd)
    from fr(4) obtain base where base: "read_state h5 s = Some base"
      by (auto simp: read_state_def split: option.splits)
    from new_state_facts [OF fr(1), of "upd base"] obtain h6 b where
      ns: "new_state (upd base) h5 = (h6, b)" and nb: "next_free h5 \<le> b"
      and st6: "state_at h6 b = Some (upd base, next_free h5, messages (upd base))"
      and b6: "\<forall>x. x < next_free h5 \<longrightarrow> cells h6 x = cells h5 x" by blast
    from b6 b5 fr(2) n4 have b6': "\<forall>x. x < next_free h \<longrightarrow> cells h6 x = cells h x" by auto
    have run: "run_turn graph h state user_text = Some (h6, Inr b)"
      by (simp add: run_turn_def c1 c2 c3 c4 g OutDict base ns)
    from nb fr(2) n4 have new: "next_free h \<le> b" "next_free h \<le> next_free h5" by auto
    have rd6: "read_state h6 b = Some (upd base)"
      unfolding read_stateI [OF st6] by simp
    show ?thesis
      apply (rule exI [of _ h4], rule exI [of _ s], rule exI [of _ h5], rule exI [of _ out])
      apply (rule exI [of _ h6], rule exI [of _ "Inr b"])
      using run s4 handed b4 g OutDict base rd6 b6 b6' keep [OF b6'] new st6 by simp
  next
    case OutOther
    have run: "run_turn graph h state user_text = Some (h5, Inl ValueError)"
      by (simp add: run_turn_def c1 c2 c3 c4 g OutOther)
    show ?thesis
      apply (rule exI [of _ h4], rule exI [of _ s], rule exI [of _ h5], rule exI [of _ out])
      apply (rule exI [of _ h5], rule exI [of _ "Inl ValueError"])
      using run s4 handed b4 g OutOther b5 keep [OF b5] by simp
  next
    case (OutRaise err)
    have run: "run_turn graph h state user_text = Some (h5, Inl err)"
      by (simp add: run_turn_def c1 c2 c3 c4 g OutRaise)
    show ?thesis
      apply (rule exI [of _ h4], rule exI [of _ s], rule exI [of _ h5], rule exI [of _ out])
      apply (rule exI [of _ h5], rule exI [of _ "Inl err"])
      using run s4 handed b4 g OutRaise b5 keep [OF b5] by simp
  qed
qed

lemma reply_graph_value:
  assumes "read_state h s = Some v" and "reply_graph h s = (h', out)"
  shows "out = OutDict (\<lambda>v. v\<lparr>last_node := Some (lit ''advice'')\<rparr>)
     \<and> read_state h' s = Some (add_assistant (lit ''Advisory update'') v)"
proof -
  from assms(1) obtain f m ms where st: "state_at h s = Some (f, m, ms)"
    and v: "v = f\<lparr>messages := ms\<rparr>"
    by (auto simp: read_state_def split: option.splits)
  from state_atD [OF st] have c: "cells h s = Some (StateObj f m)" "cells h m = Some (ListObj ms)"
    by simp_all
  then have ne: "s \<noteq> m" by auto
  let ?ms = "ms @ [\<lparr>role = lit ''assistant'', content = lit ''Advisory update''\<rparr>]"
  let ?h = "h\<lparr>cells := (cells h)(m \<mapsto> ListObj ?ms)\<rparr>"
  from assms(2) st have r: "h' = ?h" "out = OutDict (\<lambda>v. v\<lparr>last_node := Some (lit ''advice'')\<rparr>)"
    by (simp_all add: reply_graph_def)
  have st': "state_at ?h s = Some (f, m, ?ms)" using c ne by (simp add: state_at_def)
  have "read_state ?h s = Some (add_assistant (lit ''Advisory update'') v)"
    unfolding read_stateI [OF st'] v by (simp add: add_assistant_def)
  with r show ?thesis by simp
qed

theorem run_turn_leaves_input_witness:
  "wf_store store0 \<and> graph_frame reply_graph \<and> read_state store0 0 = Some state_long
   \<and> (\<exists>h' b. run_turn reply_graph store0 0 (lit ''hello'') = Some (h', Inr b)
         \<and> 2 \<le> b
         \<and> read_state h' 0 = Some state_long
         \<and> cells h' 0 = cells store0 0 \<and> cells h' 1 = cells store0 1
         \<and> read_state h' b
             = Some ((add_assistant (lit ''Advisory update'')
                        (turn_start (lit ''hello'') state_long))
                      \<lparr>last_node := Some (lit ''advice'')\<rparr>))"
proof -
  from run_turn_leaves_input [OF store0_ok(1,2) reply_graph_frame, of "lit ''hello''"]
  obtain h4 s h5 out h' r where
    run: "run_turn reply_graph store0 0 (lit ''hello'') = Some (h', r)"
    and handed: "read_state h4 s = map_option (turn_start (lit ''hello'')) (read_state store0 0)"
    and g: "reply_graph h4 s = (h5, out)"
    and ret: "case out of
           OutState b \<Rightarrow> h' = h5 \<and> r = Inr b
         | OutDict upd \<Rightarrow>
             (case read_state h5 s of
                None \<Rightarrow> False
              | Some base \<Rightarrow>
                  (case r of
                     Inl err \<Rightarrow> False
                   | Inr b \<Rightarrow>
                       read_state h' b = Some (upd base)
                       \<and> (\<forall>x. x < next_free h5 \<longrightarrow> cells h' x = cells h5 x)))
         | OutOther \<Rightarrow> h' = h5 \<and> r = Inl ValueError
         | OutRaise err \<Rightarrow> h' = h5 \<and> r = Inl err"
    and same: "\<forall>x. x < next_free store0 \<longrightarrow> cells h' x = cells store0 x"
    and rd: "read_state h' 0 = read_state store0 0"
    and res: "case r of Inl err \<Rightarrow> True
         | Inr b \<Rightarrow> next_free store0 \<le> b
             \<and> (case state_at h' b of None \<Rightarrow> False
                | Some (f', m', ms') \<Rightarrow> next_free store0 \<le> m')"
    by (elim exE conjE) (rule that, assumption+)
  have n: "next_free store0 = 2" by (simp add: store0_def)
  from handed store0_ok(3)
  have h: "read_state h4 s = Some (turn_start (lit ''hello'') state_long)" by simp
  from reply_graph_value [OF h g]
  have out: "out = OutDict (\<lambda>v. v\<lparr>last_node := Some (lit ''advice'')\<rparr>)"
    and base: "read_state h5 s
      = Some (add_assistant (lit ''Advisory update'') (turn_start (lit ''hello'') state_long))"
    by simp_all
  from ret obtain b where b: "r = Inr b"
    and val: "read_state h' b
             = Some ((add_assistant (lit ''Advisory update'')
                        (turn_start (lit ''hello'') state_long))
                      \<lparr>last_node := Some (lit ''advice'')\<rparr>)"
    unfolding out base by (cases r) simp_all
  from b res n have "2 \<le> b" by simp
  moreover from same n have "cells h' 0 = cells store0 0" "cells h' 1 = cells store0 1" by simp_all
  ultimately show ?thesis
    using run b rd val store0_ok reply_graph_frame by simp
qed

text \<open>
  The state returned in that run has turn counter 1, last node \<open>advice\<close>, and the log of
  the working copy (16 entries after compaction) followed by the reply.
\<close>

lemma reply_turn_value:
  "turn_count ((add_assistant (lit ''Advisory update'') (turn_start (lit ''hello'') state_long))
                 \<lparr>last_node := Some (lit ''advice'')\<rparr>) = 1"
  "length (messages ((add_assistant (lit ''Advisory update'')
                        (turn_start (lit ''hello'') state_long))
                      \<lparr>last_node := Some (lit ''advice'')\<rparr>)) = 17"
  unfolding long_start by (simp_all add: add_assistant_def)

text \<open>
  The deep copy is what the property rests on: after a shallow copy the first append of
  \<open>run_turn\<close> would already show in the incoming state.
\<close>

lemma shallow_copy_aliases:
  "(case model_copy_shallow store0 0 of
      None \<Rightarrow> False
    | Some (h1, s) \<Rightarrow>
        (case add_user_at (lit ''hello'') h1 s of
           None \<Rightarrow> False
         | Some h2 \<Rightarrow>
             map_option (length \<circ> messages) (read_state h2 0) = Some 17
           \<and> map_option (length \<circ> messages) (read_state store0 0) = Some 16))"
  by (simp add: model_copy_shallow_def add_user_at_def alloc_def state_at_def read_state_def
        store0_def state_long_def empty_state_def)

end
